theory Spec2Isabelle
  imports Main
begin

section \<open>The product client of \<^verbatim>\<open>ecommerce-frontend/src/App.js\<close>\<close>

text \<open>
  The component \<^verbatim>\<open>App\<close> holds nine pieces of React state and eight handlers that talk to
  a back end over HTTP. The embedding keeps the component state as a record, makes the back
  end an explicit parameter (one function per endpoint, threading the server's own state),
  and records every request, every settlement and every timer in a trace stamped with the
  time of a model clock. A handler is a function from worlds to worlds; a rejected promise
  is the \<open>Inl\<close> branch of the endpoint's answer, so every \<^verbatim>\<open>catch\<close> of the source is a
  branch of the model. What the handlers write to the console is left out.
\<close>

subsection \<open>JavaScript values\<close>

text \<open>
  The values the handlers move around without looking inside: \<^verbatim>\<open>undefined\<close>, \<^verbatim>\<open>null\<close>,
  numbers and strings. A number is held as the text \<^verbatim>\<open>String(n)\<close> prints for it, which is
  all the code ever asks of a number (it interpolates it into a message, or tests it for
  truthiness).
\<close>

datatype jsval = Undefined | Null | Num string | Str string

text \<open>The condition of \<^verbatim>\<open>v ? a : b\<close> and of \<^verbatim>\<open>if (v)\<close>.\<close>

fun truthy :: "jsval \<Rightarrow> bool" where
  "truthy Undefined = False"
| "truthy Null = False"
| "truthy (Num t) = (t \<noteq> ''0'' \<and> t \<noteq> ''NaN'')"
| "truthy (Str s) = (s \<noteq> [])"

text \<open>What a template literal \<^verbatim>\<open>`${v}`\<close> inserts.\<close>

fun toString :: "jsval \<Rightarrow> string" where
  "toString Undefined = ''undefined''"
| "toString Null = ''null''"
| "toString (Num t) = t"
| "toString (Str s) = s"

subsection \<open>Component state\<close>

record product =
  product_id :: jsval
  product_name :: jsval
  product_price :: jsval

record cacheTestResults =
  firstFetchStatus :: string
  secondFetchStatus :: string
  overallMessage :: string

record state =
  products :: "product list"
  loading :: bool
  error :: jsval
  productName :: jsval
  productPrice :: jsval
  selectedProductId :: jsval
  responseMessage :: jsval
  queueMessages :: "string list"
  cacheTestResults :: cacheTestResults

text \<open>The arguments of the nine \<^verbatim>\<open>useState\<close> calls (lines 7 to 19).\<close>

definition initial_state :: state where
  "initial_state =
     \<lparr>products = [], loading = True, error = Null, productName = Str [],
      productPrice = Str [], selectedProductId = Null, responseMessage = Str [],
      queueMessages = [],
      cacheTestResults =
        \<lparr>firstFetchStatus = [], secondFetchStatus = [], overallMessage = []\<rparr>\<rparr>"

subsection \<open>The back end\<close>

text \<open>
  The body of an error response, as far as the handlers read it: \<open>No_data\<close> when
  \<^verbatim>\<open>error.response.data\<close> is \<^verbatim>\<open>null\<close> or \<^verbatim>\<open>undefined\<close>, so that reading a property of it
  throws a \<^verbatim>\<open>TypeError\<close>; otherwise \<open>Data m\<close> with \<open>m\<close> the value of
  \<^verbatim>\<open>error.response.data.message\<close>, which is \<open>Undefined\<close> when the body has no such field.
\<close>

datatype err_body = No_data | Data jsval

text \<open>
  A rejected request carries the error's own \<^verbatim>\<open>message\<close> and, when the server answered,
  a response; \<open>err_response\<close> is \<open>None\<close> when \<^verbatim>\<open>error.response\<close> is undefined.
\<close>

record failure =
  err_message :: string
  err_response :: "err_body option"

text \<open>The bodies of the successful answers, as the handlers read them.\<close>

record catalog_data =
  data_products :: "product list"
  data_cacheStatus :: jsval

record product_data =
  data_name :: jsval
  data_price :: jsval

text \<open>
  The requests of the source, by method and path. The two writes carry the name field and
  the price field of the form; the body's price is \<^verbatim>\<open>parseFloat\<close> of that field, so the
  request is recorded with the value the body is computed from.
\<close>

datatype request =
  Get_products
| Post_products jsval jsval
| Put_products jsval jsval jsval
| Delete_products jsval
| Get_queue
| Get_cache_clear

text \<open>
  What \<^verbatim>\<open>axios\<close> and the configured \<^verbatim>\<open>axiosInstance\<close> reach, client and server taken
  together: one function per endpoint, from the server's state to the answer and the
  server's next state. The type of each answer is the shape of section 6 of the
  specification's HTTP contract; a successful answer with a body of another shape (no
  object at all, or a catalogue without a list) is not an input of the model.
  \<open>latency\<close> is the time the next request will take to settle.
\<close>

record 'sv backend =
  list_products :: "'sv \<Rightarrow> (failure + catalog_data) \<times> 'sv"
  create_product :: "jsval \<Rightarrow> jsval \<Rightarrow> 'sv \<Rightarrow> (failure + product_data) \<times> 'sv"
  update_product :: "jsval \<Rightarrow> jsval \<Rightarrow> jsval \<Rightarrow> 'sv \<Rightarrow> (failure + product_data) \<times> 'sv"
  delete_product :: "jsval \<Rightarrow> 'sv \<Rightarrow> (failure + unit) \<times> 'sv"
  fetch_queue :: "'sv \<Rightarrow> (failure + string list) \<times> 'sv"
  clear_cache :: "'sv \<Rightarrow> (failure + unit) \<times> 'sv"
  latency :: "'sv \<Rightarrow> nat"

subsection \<open>Worlds and traces\<close>

text \<open>
  \<open>Sent\<close> is logged when a request is issued and \<open>Settled\<close> when its promise resolves
  (\<open>True\<close>) or rejects (\<open>False\<close>). \<open>Timer_set d\<close> is a call of \<^verbatim>\<open>setTimeout\<close> with delay
  \<open>d\<close>; \<open>Timer_fired s d\<close> is the start of the callback of the timer set at time \<open>s\<close> with
  delay \<open>d\<close>. \<open>Uncaught_TypeError\<close> is an exception that leaves a handler: the handler
  stops there and its promise rejects with nobody to catch it.
\<close>

datatype event =
  Sent request
| Settled request bool
| Timer_set nat
| Timer_fired nat nat
| Uncaught_TypeError

record 'sv world =
  ui :: state
  server :: 'sv
  clock :: nat
  timers :: "(nat \<times> nat) list"
  trace :: "(nat \<times> event) list"

text \<open>
  An awaited request: issue it, let the server answer after its latency, log both ends.
  The handler that awaits resumes when the request has settled.
\<close>

definition await_request ::
  "'sv backend \<Rightarrow> request \<Rightarrow> ('sv \<Rightarrow> (failure + 'a) \<times> 'sv) \<Rightarrow> 'sv world
     \<Rightarrow> (failure + 'a) \<times> 'sv world" where
  "await_request b rq f w =
     (case f (server w) of
        (r, sv) \<Rightarrow>
          (r, w\<lparr>server := sv,
                clock := clock w + latency b (server w),
                trace := trace w @ [(clock w, Sent rq),
                                    (clock w + latency b (server w), Settled rq (\<not> isl r))]\<rparr>))"

subsection \<open>The handlers\<close>

text \<open>\<^verbatim>\<open>fetchProducts\<close> (lines 26 to 39): the value returned is the cache status, or \<^verbatim>\<open>null\<close>.\<close>

definition fetchProducts :: "'sv backend \<Rightarrow> 'sv world \<Rightarrow> jsval \<times> 'sv world" where
  "fetchProducts b w =
     (case await_request b Get_products (list_products b) w of
        (Inr d, w1) \<Rightarrow>
          (data_cacheStatus d,
           w1\<lparr>ui := (ui w1)\<lparr>products := data_products d, loading := False\<rparr>\<rparr>)
      | (Inl e, w1) \<Rightarrow>
          (Null,
           w1\<lparr>ui := (ui w1)
                 \<lparr>error := Str (''Error fetching products: '' @ err_message e
                                 @ ''. Please try again later.''),
                  loading := False\<rparr>\<rparr>))"

text \<open>The effect of line 21: the component fetches the catalogue when it mounts.\<close>

definition mount :: "'sv backend \<Rightarrow> 'sv world \<Rightarrow> 'sv world" where
  "mount b w = snd (fetchProducts b w)"

text \<open>
  The request of \<^verbatim>\<open>handleAddOrUpdateProduct\<close> (lines 42 to 55): a PUT on the selected id when
  \<^verbatim>\<open>selectedProductId\<close> is truthy, a POST otherwise.
\<close>

definition submit_request ::
  "'sv backend \<Rightarrow> 'sv world \<Rightarrow> (failure + product_data) \<times> 'sv world" where
  "submit_request b w =
     (let s = ui w in
      if truthy (selectedProductId s)
      then await_request b (Put_products (selectedProductId s) (productName s) (productPrice s))
             (update_product b (selectedProductId s) (productName s) (productPrice s)) w
      else await_request b (Post_products (productName s) (productPrice s))
             (create_product b (productName s) (productPrice s)) w)"

text \<open>
  \<^verbatim>\<open>handleAddOrUpdateProduct\<close> (lines 41 to 67). In the \<^verbatim>\<open>catch\<close>, the argument of
  \<^verbatim>\<open>setResponseMessage\<close> is evaluated first: with a response that has no body the read of
  \<^verbatim>\<open>.message\<close> throws, and the setter is never called.
\<close>

definition handleAddOrUpdateProduct :: "'sv backend \<Rightarrow> 'sv world \<Rightarrow> 'sv world" where
  "handleAddOrUpdateProduct b w =
     (case submit_request b w of
        (Inr d, w1) \<Rightarrow>
          snd (fetchProducts b
            (w1\<lparr>ui := (ui w1)
                 \<lparr>responseMessage :=
                    Str (''Product ''
                         @ (if truthy (selectedProductId (ui w)) then ''updated'' else ''added'')
                         @ '': '' @ toString (data_name d) @ '' - $'' @ toString (data_price d)),
                  productName := Str [],
                  productPrice := Str [],
                  selectedProductId := Null\<rparr>\<rparr>))
      | (Inl e, w1) \<Rightarrow>
          (case err_response e of
             None \<Rightarrow>
               w1\<lparr>ui := (ui w1)\<lparr>responseMessage := Str ''Failed to perform operation''\<rparr>\<rparr>
           | Some (Data m) \<Rightarrow> w1\<lparr>ui := (ui w1)\<lparr>responseMessage := m\<rparr>\<rparr>
           | Some No_data \<Rightarrow> w1\<lparr>trace := trace w1 @ [(clock w1, Uncaught_TypeError)]\<rparr>))"

text \<open>\<^verbatim>\<open>handleDeleteProduct\<close> (lines 69 to 81), with the same \<^verbatim>\<open>catch\<close>.\<close>

definition handleDeleteProduct :: "'sv backend \<Rightarrow> jsval \<Rightarrow> 'sv world \<Rightarrow> 'sv world" where
  "handleDeleteProduct b i w =
     (case await_request b (Delete_products i) (delete_product b i) w of
        (Inr u, w1) \<Rightarrow>
          snd (fetchProducts b
            (w1\<lparr>ui := (ui w1)\<lparr>responseMessage := Str ''Product deleted successfully''\<rparr>\<rparr>))
      | (Inl e, w1) \<Rightarrow>
          (case err_response e of
             None \<Rightarrow>
               w1\<lparr>ui := (ui w1)\<lparr>responseMessage := Str ''Failed to delete product''\<rparr>\<rparr>
           | Some (Data m) \<Rightarrow> w1\<lparr>ui := (ui w1)\<lparr>responseMessage := m\<rparr>\<rparr>
           | Some No_data \<Rightarrow> w1\<lparr>trace := trace w1 @ [(clock w1, Uncaught_TypeError)]\<rparr>))"

text \<open>\<^verbatim>\<open>handleSelectProduct\<close> (lines 83 to 87).\<close>

definition handleSelectProduct :: "product \<Rightarrow> 'sv world \<Rightarrow> 'sv world" where
  "handleSelectProduct p w =
     w\<lparr>ui := (ui w)
          \<lparr>selectedProductId := product_id p,
           productName := product_name p,
           productPrice := product_price p\<rparr>\<rparr>"

text \<open>\<^verbatim>\<open>fetchQueueMessages\<close> (lines 90 to 98).\<close>

definition fetchQueueMessages :: "'sv backend \<Rightarrow> 'sv world \<Rightarrow> 'sv world" where
  "fetchQueueMessages b w =
     (case await_request b Get_queue (fetch_queue b) w of
        (Inr ms, w1) \<Rightarrow> w1\<lparr>ui := (ui w1)\<lparr>queueMessages := ms\<rparr>\<rparr>
      | (Inl e, w1) \<Rightarrow> w1\<lparr>ui := (ui w1)\<lparr>queueMessages := []\<rparr>\<rparr>)"

text \<open>\<^verbatim>\<open>clearQueueMessages\<close> (lines 100 to 103).\<close>

definition clearQueueMessages :: "'sv world \<Rightarrow> 'sv world" where
  "clearQueueMessages w =
     w\<lparr>ui := (ui w)\<lparr>queueMessages := [], responseMessage := Str ''Queue messages cleared''\<rparr>\<rparr>"

text \<open>
  The callback handed to \<^verbatim>\<open>setTimeout\<close> (lines 135 to 147). It is an async function of its
  own, outside the \<^verbatim>\<open>try\<close> of \<^verbatim>\<open>testRedisCache\<close>.
\<close>

definition testRedisCache_timeout :: "'sv backend \<Rightarrow> 'sv world \<Rightarrow> 'sv world" where
  "testRedisCache_timeout b w =
     (let w1 = w\<lparr>ui := (ui w)
                  \<lparr>cacheTestResults := (cacheTestResults (ui w))
                     \<lparr>secondFetchStatus := ''Fetching products again (cache hit)...''\<rparr>\<rparr>\<rparr>
      in case fetchProducts b w1 of
           (secondStatus, w2) \<Rightarrow>
             w2\<lparr>ui := (ui w2)
                  \<lparr>cacheTestResults := (cacheTestResults (ui w2))
                     \<lparr>secondFetchStatus := ''Second Fetch: Cache '' @ toString secondStatus,
                      overallMessage := ''Cache test completed. Check the statuses above.''\<rparr>\<rparr>\<rparr>)"

text \<open>
  \<^verbatim>\<open>testRedisCache\<close> (lines 105 to 155), up to the point where it has handed the second half
  to \<^verbatim>\<open>setTimeout\<close>. The timer is stored with the time it was set and its delay.
\<close>

definition testRedisCache :: "'sv backend \<Rightarrow> 'sv world \<Rightarrow> 'sv world" where
  "testRedisCache b w =
     (let w0 = w\<lparr>ui := (ui w)
                  \<lparr>cacheTestResults :=
                     \<lparr>firstFetchStatus = [], secondFetchStatus = [],
                      overallMessage = ''Clearing Redis cache...''\<rparr>\<rparr>\<rparr>
      in case await_request b Get_cache_clear (clear_cache b) w0 of
           (Inl e, w1) \<Rightarrow>
             w1\<lparr>ui := (ui w1)
                  \<lparr>cacheTestResults := (cacheTestResults (ui w1))
                     \<lparr>overallMessage := ''Error testing Redis cache''\<rparr>\<rparr>\<rparr>
         | (Inr u, w1) \<Rightarrow>
             (let w2 = w1\<lparr>ui := (ui w1)
                          \<lparr>cacheTestResults := (cacheTestResults (ui w1))
                             \<lparr>overallMessage := ''Redis cache cleared. Testing cache...'',
                              firstFetchStatus :=
                                ''Fetching products from database (cache miss)...''\<rparr>\<rparr>\<rparr>
              in case fetchProducts b w2 of
                   (firstStatus, w3) \<Rightarrow>
                     w3\<lparr>ui := (ui w3)
                          \<lparr>cacheTestResults := (cacheTestResults (ui w3))
                             \<lparr>firstFetchStatus := ''First Fetch: Cache '' @ toString firstStatus\<rparr>\<rparr>,
                        timers := timers w3 @ [(clock w3, 2000)],
                        trace := trace w3 @ [(clock w3, Timer_set 2000)]\<rparr>))"

text \<open>\<^verbatim>\<open>clearRedisCache\<close> (lines 158 to 167).\<close>

definition clearRedisCache :: "'sv backend \<Rightarrow> 'sv world \<Rightarrow> 'sv world" where
  "clearRedisCache b w =
     (case await_request b Get_cache_clear (clear_cache b) w of
        (Inr u, w1) \<Rightarrow>
          w1\<lparr>ui := (ui w1)
               \<lparr>cacheTestResults := (cacheTestResults (ui w1))
                  \<lparr>overallMessage := ''Redis cache cleared successfully''\<rparr>\<rparr>\<rparr>
      | (Inl e, w1) \<Rightarrow>
          w1\<lparr>ui := (ui w1)
               \<lparr>cacheTestResults := (cacheTestResults (ui w1))
                  \<lparr>overallMessage := ''Failed to clear Redis cache''\<rparr>\<rparr>\<rparr>)"

subsection \<open>Timers\<close>

text \<open>
  The only \<^verbatim>\<open>setTimeout\<close> of the source is the one of \<^verbatim>\<open>testRedisCache\<close>, so every pending
  timer runs \<open>testRedisCache_timeout\<close>. The runtime starts a callback only when the timer's
  delay has passed on the clock; a timer that is not due yet stays pending. Handlers and
  callbacks run one after the other: a timer that comes due while a handler awaits a
  request runs when time next passes, not in the middle of that handler.
\<close>

fun fire_due :: "'sv backend \<Rightarrow> (nat \<times> nat) list \<Rightarrow> 'sv world \<Rightarrow> 'sv world" where
  "fire_due b [] w = w"
| "fire_due b ((s, d) # ts) w =
     (if s + d \<le> clock w
      then fire_due b ts
             (testRedisCache_timeout b (w\<lparr>trace := trace w @ [(clock w, Timer_fired s d)]\<rparr>))
      else fire_due b ts (w\<lparr>timers := timers w @ [(s, d)]\<rparr>))"

text \<open>Time passes by \<open>dt\<close>, then the timers that are due run in the order they were set.\<close>

definition advance :: "'sv backend \<Rightarrow> nat \<Rightarrow> 'sv world \<Rightarrow> 'sv world" where
  "advance b dt w = fire_due b (timers w) (w\<lparr>clock := clock w + dt, timers := []\<rparr>)"

fun advances :: "'sv backend \<Rightarrow> nat list \<Rightarrow> 'sv world \<Rightarrow> 'sv world" where
  "advances b [] w = w"
| "advances b (dt # dts) w = advances b dts (advance b dt w)"

subsection \<open>What the component renders\<close>

text \<open>
  The three returns of the component body (lines 169 to 243). Only the third one holds the
  list, the form and the buttons; the first two are a bare text.
\<close>

record controls =
  listed :: "product list"
  form_heading :: string
  name_field :: jsval
  price_field :: jsval
  status_line :: jsval
  queue_lines :: "string list"
  cache_lines :: cacheTestResults

datatype view = Loading_view | Error_view jsval | Main_view controls

definition render :: "state \<Rightarrow> view" where
  "render s =
     (if loading s then Loading_view
      else if truthy (error s) then Error_view (error s)
      else Main_view
             \<lparr>listed = products s,
              form_heading =
                (if truthy (selectedProductId s) then ''Update Product'' else ''Add New Product''),
              name_field = productName s,
              price_field = productPrice s,
              status_line = responseMessage s,
              queue_lines = queueMessages s,
              cache_lines = cacheTestResults s\<rparr>)"

text \<open>The user can act on the component exactly when the buttons are rendered.\<close>

definition interactive :: "state \<Rightarrow> bool" where
  "interactive s = (case render s of Main_view c \<Rightarrow> True | Loading_view \<Rightarrow> False | Error_view m \<Rightarrow> False)"

subsection \<open>Everything that can happen to the component\<close>

text \<open>
  The mount effect, the two \<^verbatim>\<open>onChange\<close> handlers of the form (lines 202 and 209, the
  second one with the number \<^verbatim>\<open>parseFloat\<close> made of the input), the six buttons, and the
  passing of time.
\<close>

datatype action =
  Mount
| Change_name jsval
| Change_price jsval
| Select product
| Submit
| Delete jsval
| Fetch_queue
| Clear_queue
| Test_cache
| Clear_cache
| Elapse nat

fun step :: "'sv backend \<Rightarrow> action \<Rightarrow> 'sv world \<Rightarrow> 'sv world" where
  "step b Mount w = mount b w"
| "step b (Change_name v) w = w\<lparr>ui := (ui w)\<lparr>productName := v\<rparr>\<rparr>"
| "step b (Change_price v) w = w\<lparr>ui := (ui w)\<lparr>productPrice := v\<rparr>\<rparr>"
| "step b (Select p) w = handleSelectProduct p w"
| "step b Submit w = handleAddOrUpdateProduct b w"
| "step b (Delete i) w = handleDeleteProduct b i w"
| "step b Fetch_queue w = fetchQueueMessages b w"
| "step b Clear_queue w = clearQueueMessages w"
| "step b Test_cache w = testRedisCache b w"
| "step b Clear_cache w = clearRedisCache b w"
| "step b (Elapse dt) w = advance b dt w"

fun run :: "'sv backend \<Rightarrow> action list \<Rightarrow> 'sv world \<Rightarrow> 'sv world" where
  "run b [] w = w"
| "run b (a # as) w = run b as (step b a w)"

subsection \<open>Reading a trace\<close>

text \<open>
  \<open>callback_runs ts evs\<close> holds when \<open>evs\<close> is made of runs of the timer callback and of
  nothing else: each run starts with the firing of a timer of \<open>ts\<close>, no earlier than the
  time the timer was set plus its delay, issues its catalogue fetch at that moment, and
  ends when the fetch has settled.
\<close>

fun callback_runs :: "(nat \<times> nat) list \<Rightarrow> (nat \<times> event) list \<Rightarrow> bool" where
  "callback_runs ts [] = True"
| "callback_runs ts ((t, Timer_fired s d) # (t1, Sent Get_products)
                      # (t2, Settled Get_products ok) # evs) =
     ((s, d) \<in> set ts \<and> s + d \<le> t \<and> t1 = t \<and> t \<le> t2 \<and> callback_runs ts evs)"
| "callback_runs ts evs = False"

text \<open>
  \<open>callback_ran s d old new\<close>: the trace has grown from \<open>old\<close> to \<open>new\<close>, and in the new
  stretch the callback of the timer set at \<open>s\<close> with delay \<open>d\<close> has started, no earlier than
  \<open>s + d\<close>, has issued its catalogue fetch at that moment, and the fetch has settled.
\<close>

abbreviation callback_ran ::
  "nat \<Rightarrow> nat \<Rightarrow> (nat \<times> event) list \<Rightarrow> (nat \<times> event) list \<Rightarrow> bool" where
  "callback_ran s d old new \<equiv>
     \<exists>pre t t' ok post.
       new = old @ pre @ [(t, Timer_fired s d), (t, Sent Get_products),
                          (t', Settled Get_products ok)] @ post
       \<and> s + d \<le> t"

text \<open>The catalogue fetches issued in a stretch of trace.\<close>

definition fetches_issued :: "(nat \<times> event) list \<Rightarrow> (nat \<times> event) list" where
  "fetches_issued evs = filter (\<lambda>ev. snd ev = Sent Get_products) evs"

text \<open>
  The values the specification's data model declares for \<^verbatim>\<open>cacheStatus\<close>
  (\<^verbatim>\<open>hit\<close>, \<^verbatim>\<open>miss\<close>, \<^verbatim>\<open>unknown\<close>).
\<close>

definition declared_cacheStatus :: "jsval set" where
  "declared_cacheStatus = {Str ''hit'', Str ''miss'', Str ''unknown''}"

subsection \<open>A small shop for the examples\<close>

text \<open>
  The examples below run the handlers against a back end that keeps a stock of products
  behind a cache flag and answers from a script, one entry per request: \<open>Accept\<close> lets the
  request through, \<open>Reject f\<close> makes it fail with \<open>f\<close>. When the script is used up every
  request goes through. Every request takes 30 units of time.
\<close>

datatype reply = Accept | Reject failure

record shop =
  script :: "reply list"
  stock :: "product list"
  cached :: bool
  queue :: "string list"

fun answer :: "(shop \<Rightarrow> 'a \<times> shop) \<Rightarrow> shop \<Rightarrow> (failure + 'a) \<times> shop" where
  "answer f sh =
     (case script sh of
        [] \<Rightarrow> (case f sh of (a, sh') \<Rightarrow> (Inr a, sh'))
      | Accept # rs \<Rightarrow> (case f (sh\<lparr>script := rs\<rparr>) of (a, sh') \<Rightarrow> (Inr a, sh'))
      | Reject e # rs \<Rightarrow> (Inl e, sh\<lparr>script := rs\<rparr>))"

definition scripted :: "shop backend" where
  "scripted =
     \<lparr>list_products =
        answer (\<lambda>sh. (\<lparr>data_products = stock sh,
                         data_cacheStatus = Str (if cached sh then ''hit'' else ''miss'')\<rparr>,
                       sh\<lparr>cached := True\<rparr>)),
      create_product =
        (\<lambda>n p. answer (\<lambda>sh. (\<lparr>data_name = n, data_price = p\<rparr>,
                               sh\<lparr>stock := stock sh @ [\<lparr>product_id = Str (toString n),
                                                        product_name = n, product_price = p\<rparr>],
                                  cached := False\<rparr>))),
      update_product =
        (\<lambda>i n p. answer (\<lambda>sh. (\<lparr>data_name = n, data_price = p\<rparr>,
                                 sh\<lparr>stock :=
                                      map (\<lambda>q. if product_id q = i
                                               then q\<lparr>product_name := n, product_price := p\<rparr>
                                               else q) (stock sh),
                                    cached := False\<rparr>))),
      delete_product =
        (\<lambda>i. answer (\<lambda>sh. ((), sh\<lparr>stock := filter (\<lambda>q. product_id q \<noteq> i) (stock sh),
                                    cached := False\<rparr>))),
      fetch_queue = answer (\<lambda>sh. (queue sh, sh)),
      clear_cache = answer (\<lambda>sh. ((), sh\<lparr>cached := False\<rparr>)),
      latency = (\<lambda>sh. 30)\<rparr>"

definition widget :: product where
  "widget = \<lparr>product_id = Num ''1'', product_name = Str ''Widget'', product_price = Num ''9.99''\<rparr>"

text \<open>
  A transport failure (no response), and three server errors: with a message, with a body
  that has no message, and with no body.
\<close>

definition network_error :: failure where
  "network_error = \<lparr>err_message = ''Network Error'', err_response = None\<rparr>"

definition server_error :: failure where
  "server_error =
     \<lparr>err_message = ''Request failed with status code 500'',
      err_response = Some (Data (Str ''Product not found''))\<rparr>"

definition bare_error :: failure where
  "bare_error =
     \<lparr>err_message = ''Request failed with status code 500'',
      err_response = Some (Data Undefined)\<rparr>"

definition bodiless_error :: failure where
  "bodiless_error =
     \<lparr>err_message = ''Request failed with status code 502'',
      err_response = Some No_data\<rparr>"

text \<open>The component before its mount effect has run, on a shop with the script \<open>rs\<close>.\<close>

definition starting :: "reply list \<Rightarrow> shop world" where
  "starting rs =
     \<lparr>ui = initial_state,
      server = \<lparr>script = rs, stock = [widget], cached = False, queue = []\<rparr>,
      clock = 0, timers = [], trace = []\<rparr>"

text \<open>
  The component after a successful mount on a shop that stocks \<open>widget\<close>, with the script
  \<open>rs\<close> still to come.
\<close>

definition ready :: "reply list \<Rightarrow> shop world" where
  "ready rs =
     \<lparr>ui = initial_state\<lparr>products := [widget], loading := False\<rparr>,
      server = \<lparr>script = rs, stock = [widget], cached = True, queue = [''created Widget'']\<rparr>,
      clock = 0, timers = [], trace = []\<rparr>"

text \<open>What \<open>ready rs\<close> renders.\<close>

definition ready_view :: controls where
  "ready_view =
     \<lparr>listed = [widget], form_heading = ''Add New Product'', name_field = Str [],
      price_field = Str [], status_line = Str [], queue_lines = [],
      cache_lines = \<lparr>firstFetchStatus = [], secondFetchStatus = [], overallMessage = []\<rparr>\<rparr>"

text \<open>The same, with \<open>widget\<close> selected for edit.\<close>

definition editing :: "reply list \<Rightarrow> shop world" where
  "editing rs = handleSelectProduct widget (ready rs)"

text \<open>The same as \<open>ready\<close>, with a new product typed into the form.\<close>

definition drafting :: "reply list \<Rightarrow> shop world" where
  "drafting rs =
     (ready rs)\<lparr>ui := (ui (ready rs))\<lparr>productName := Str ''Gadget'', productPrice := Num ''14.5''\<rparr>\<rparr>"

section \<open>Properties\<close>

lemmas fixture_defs = scripted_def ready_def editing_def drafting_def starting_def widget_def
  initial_state_def network_error_def server_error_def bare_error_def bodiless_error_def
  handleSelectProduct_def

subsection \<open>Requests\<close>

lemma await_request_fst [simp]: "fst (await_request b rq f w) = fst (f (server w))"
  by (simp add: await_request_def split: prod.splits)

lemma await_request_ui [simp]: "ui (snd (await_request b rq f w)) = ui w"
  by (simp add: await_request_def split: prod.splits)

lemma await_request_timers [simp]: "timers (snd (await_request b rq f w)) = timers w"
  by (simp add: await_request_def split: prod.splits)

lemma await_request_server [simp]: "server (snd (await_request b rq f w)) = snd (f (server w))"
  by (simp add: await_request_def split: prod.splits)

lemma await_request_clock [simp]:
  "clock (snd (await_request b rq f w)) = clock w + latency b (server w)"
  by (simp add: await_request_def split: prod.splits)

lemma await_request_trace [simp]:
  "trace (snd (await_request b rq f w)) =
     trace w @ [(clock w, Sent rq),
                (clock w + latency b (server w), Settled rq (\<not> isl (fst (f (server w)))))]"
  by (simp add: await_request_def split: prod.splits)

lemma submit_request_ui [simp]: "ui (snd (submit_request b w)) = ui w"
  by (simp add: submit_request_def Let_def)

subsection \<open>The catalogue fetch\<close>

text \<open>\<open>fetchProducts\<close> writes \<open>products\<close>, \<open>loading\<close> and \<open>error\<close> and nothing else.\<close>

lemma fetchProducts_frame [simp]:
  "productName (ui (snd (fetchProducts b w))) = productName (ui w)"
  "productPrice (ui (snd (fetchProducts b w))) = productPrice (ui w)"
  "selectedProductId (ui (snd (fetchProducts b w))) = selectedProductId (ui w)"
  "responseMessage (ui (snd (fetchProducts b w))) = responseMessage (ui w)"
  "queueMessages (ui (snd (fetchProducts b w))) = queueMessages (ui w)"
  "cacheTestResults (ui (snd (fetchProducts b w))) = cacheTestResults (ui w)"
  "timers (snd (fetchProducts b w)) = timers w"
  "clock (snd (fetchProducts b w)) = clock w + latency b (server w)"
  by (simp_all add: fetchProducts_def await_request_def split: prod.splits sum.splits)

lemma fetchProducts_trace [simp]:
  "trace (snd (fetchProducts b w)) =
     trace w @ [(clock w, Sent Get_products),
                (clock w + latency b (server w),
                 Settled Get_products (\<not> isl (fst (list_products b (server w)))))]"
  by (simp add: fetchProducts_def await_request_def split: prod.splits sum.splits)

lemma fetchProducts_failed:
  "fst (list_products b (server w)) = Inl e \<Longrightarrow>
   fst (fetchProducts b w) = Null \<and>
   ui (snd (fetchProducts b w)) =
     (ui w)\<lparr>error := Str (''Error fetching products: '' @ err_message e
                          @ ''. Please try again later.''),
            loading := False\<rparr>"
  by (cases "list_products b (server w)") (simp add: fetchProducts_def await_request_def)

lemma fetchProducts_error_stays:
  "truthy (error (ui w)) \<Longrightarrow> truthy (error (ui (snd (fetchProducts b w))))"
  by (simp add: fetchProducts_def await_request_def split: prod.splits sum.splits)

lemma fetchProducts_fst:
  "fst (fetchProducts b w) =
     (case fst (list_products b (server w)) of Inl e \<Rightarrow> Null | Inr d \<Rightarrow> data_cacheStatus d)"
  by (cases "list_products b (server w)")
     (simp add: fetchProducts_def await_request_def split: sum.splits)

lemma fetchProducts_server [simp]:
  "server (snd (fetchProducts b w)) = snd (list_products b (server w))"
  by (cases "list_products b (server w)")
     (simp add: fetchProducts_def await_request_def split: sum.splits)

subsection \<open>The form\<close>

text \<open>
  C3. After a create or an update whose request succeeded, whichever of the two the form
  was set up for, no product is selected any more and the name and price fields are empty.
\<close>

theorem mode_reset:
  assumes "fst (submit_request b w) = Inr d"
  shows "selectedProductId (ui (handleAddOrUpdateProduct b w)) = Null
       \<and> productName (ui (handleAddOrUpdateProduct b w)) = Str []
       \<and> productPrice (ui (handleAddOrUpdateProduct b w)) = Str []"
  using assms
  by (cases "submit_request b w") (simp add: handleAddOrUpdateProduct_def)

lemma submit_editing:
  "fst (submit_request scripted (editing [])) =
     Inr \<lparr>data_name = Str ''Widget'', data_price = Num ''9.99''\<rparr>"
  by (simp add: submit_request_def fixture_defs)

lemma submit_drafting:
  "fst (submit_request scripted (drafting [])) =
     Inr \<lparr>data_name = Str ''Gadget'', data_price = Num ''14.5''\<rparr>"
  by (simp add: submit_request_def fixture_defs)

text \<open>
  An update of the selected \<open>widget\<close> and a create of a new product, both accepted by the
  shop.
\<close>

theorem mode_reset_witness:
  "fst (submit_request scripted (editing [])) =
     Inr \<lparr>data_name = Str ''Widget'', data_price = Num ''9.99''\<rparr>
   \<and> selectedProductId (ui (editing [])) = Num ''1''
   \<and> selectedProductId (ui (handleAddOrUpdateProduct scripted (editing []))) = Null
   \<and> productName (ui (handleAddOrUpdateProduct scripted (editing []))) = Str []
   \<and> productPrice (ui (handleAddOrUpdateProduct scripted (editing []))) = Str []
   \<and> fst (submit_request scripted (drafting [])) =
       Inr \<lparr>data_name = Str ''Gadget'', data_price = Num ''14.5''\<rparr>
   \<and> selectedProductId (ui (drafting [])) = Null
   \<and> selectedProductId (ui (handleAddOrUpdateProduct scripted (drafting []))) = Null
   \<and> productName (ui (handleAddOrUpdateProduct scripted (drafting []))) = Str []
   \<and> productPrice (ui (handleAddOrUpdateProduct scripted (drafting []))) = Str []"
proof -
  have s: "selectedProductId (ui (editing [])) = Num ''1''"
    "selectedProductId (ui (drafting [])) = Null"
    by (simp_all add: fixture_defs)
  from mode_reset [OF submit_editing] mode_reset [OF submit_drafting]
    submit_editing submit_drafting s
  show ?thesis by simp
qed

text \<open>
  The catch branches of \<open>handleAddOrUpdateProduct\<close> and \<open>handleDeleteProduct\<close>: the status
  becomes the fallback text or the message of the body, and stays what it was when the
  catch itself throws.
\<close>

lemma handleAddOrUpdateProduct_rejected:
  assumes "fst (submit_request b w) = Inl e"
  shows "ui (handleAddOrUpdateProduct b w) =
           (ui w)\<lparr>responseMessage :=
                    (case err_response e of
                       None \<Rightarrow> Str ''Failed to perform operation''
                     | Some No_data \<Rightarrow> responseMessage (ui w)
                     | Some (Data m) \<Rightarrow> m)\<rparr>"
proof -
  obtain w1 where r: "submit_request b w = (Inl e, w1)"
    using assms by (cases "submit_request b w") simp
  have "ui w1 = ui w"
    using submit_request_ui [of b w] r by simp
  with r show ?thesis
    by (simp add: handleAddOrUpdateProduct_def split: option.splits err_body.splits)
qed

lemma handleDeleteProduct_rejected:
  assumes "fst (delete_product b i (server w)) = Inl e"
  shows "ui (handleDeleteProduct b i w) =
           (ui w)\<lparr>responseMessage :=
                    (case err_response e of
                       None \<Rightarrow> Str ''Failed to delete product''
                     | Some No_data \<Rightarrow> responseMessage (ui w)
                     | Some (Data m) \<Rightarrow> m)\<rparr>"
  using assms
  by (cases "delete_product b i (server w)")
     (simp add: handleDeleteProduct_def await_request_def
        split: option.splits err_body.splits)

text \<open>
  C8. When the request of a create or an update fails, the handler changes the status
  message and nothing else of the component state: the name field, the price field and the
  selection are what they were.
\<close>

theorem failed_submit_keeps_form:
  assumes "fst (submit_request b w) = Inl e"
  shows "ui (handleAddOrUpdateProduct b w) =
           (ui w)\<lparr>responseMessage :=
                    (case err_response e of
                       None \<Rightarrow> Str ''Failed to perform operation''
                     | Some No_data \<Rightarrow> responseMessage (ui w)
                     | Some (Data m) \<Rightarrow> m)\<rparr>
       \<and> productName (ui (handleAddOrUpdateProduct b w)) = productName (ui w)
       \<and> productPrice (ui (handleAddOrUpdateProduct b w)) = productPrice (ui w)
       \<and> selectedProductId (ui (handleAddOrUpdateProduct b w)) = selectedProductId (ui w)"
  using handleAddOrUpdateProduct_rejected [OF assms] by simp

lemma submit_drafting_rejected:
  "fst (submit_request scripted (drafting [Reject server_error])) = Inl server_error"
  by (simp add: submit_request_def fixture_defs)

text \<open>A create that the shop rejects: the typed product is still in the form.\<close>

theorem failed_submit_keeps_form_witness:
  "fst (submit_request scripted (drafting [Reject server_error])) = Inl server_error
   \<and> productName (ui (handleAddOrUpdateProduct scripted (drafting [Reject server_error])))
       = Str ''Gadget''
   \<and> productPrice (ui (handleAddOrUpdateProduct scripted (drafting [Reject server_error])))
       = Num ''14.5''
   \<and> selectedProductId (ui (handleAddOrUpdateProduct scripted (drafting [Reject server_error])))
       = Null
   \<and> responseMessage (ui (handleAddOrUpdateProduct scripted (drafting [Reject server_error])))
       = Str ''Product not found''"
proof -
  have before: "productName (ui (drafting rs)) = Str ''Gadget''"
    "productPrice (ui (drafting rs)) = Num ''14.5''"
    "selectedProductId (ui (drafting rs)) = Null" for rs
    by (simp_all add: fixture_defs)
  have shown: "err_response server_error = Some (Data (Str ''Product not found''))"
    by (simp add: server_error_def)
  from failed_submit_keeps_form [OF submit_drafting_rejected] submit_drafting_rejected
  show ?thesis
    by (simp add: before shown)
qed

text \<open>
  C9. \<open>handleDeleteProduct\<close> never writes the selection, the name field or the price field,
  whatever id it is called with and whatever the server answers; in particular a delete of
  the product that is selected for edit leaves the form on that id.
\<close>

theorem delete_keeps_form:
  "selectedProductId (ui (handleDeleteProduct b i w)) = selectedProductId (ui w)
   \<and> productName (ui (handleDeleteProduct b i w)) = productName (ui w)
   \<and> productPrice (ui (handleDeleteProduct b i w)) = productPrice (ui w)"
proof (cases "await_request b (Delete_products i) (delete_product b i) w")
  case (Pair r w1)
  have "ui w1 = ui w"
    using await_request_ui [of b "Delete_products i" "delete_product b i" w] Pair by simp
  with Pair show ?thesis
    by (cases r) (simp_all add: handleDeleteProduct_def split: option.splits err_body.splits)
qed

lemma delete_selected_products:
  "products (ui (handleDeleteProduct scripted (Num ''1'') (editing []))) = []"
  by (simp add: handleDeleteProduct_def fetchProducts_def await_request_def fixture_defs)

text \<open>
  The shop deletes \<open>widget\<close> while it is selected: the refreshed list is empty and the form
  still edits id 1.
\<close>

theorem delete_keeps_form_witness:
  "products (ui (handleDeleteProduct scripted (Num ''1'') (editing []))) = []
   \<and> selectedProductId (ui (handleDeleteProduct scripted (Num ''1'') (editing []))) = Num ''1''
   \<and> productName (ui (handleDeleteProduct scripted (Num ''1'') (editing []))) = Str ''Widget''
   \<and> productPrice (ui (handleDeleteProduct scripted (Num ''1'') (editing []))) = Num ''9.99''"
proof -
  have before: "selectedProductId (ui (editing [])) = Num ''1''"
    "productName (ui (editing [])) = Str ''Widget''"
    "productPrice (ui (editing [])) = Num ''9.99''"
    by (simp_all add: fixture_defs)
  from delete_keeps_form [of scripted "Num ''1''" "editing []"] delete_selected_products
  show ?thesis
    by (simp add: before)
qed

subsection \<open>The queue viewer\<close>

text \<open>
  C7. \<open>clearQueueMessages\<close> issues no request (the trace, the server, the clock and the
  timers are untouched), empties the held batch and sets the confirmation message, and
  changes neither the answer nor the outcome of a queue fetch that follows.
\<close>

theorem queue_clear_is_local:
  "trace (clearQueueMessages w) = trace w
   \<and> server (clearQueueMessages w) = server w
   \<and> clock (clearQueueMessages w) = clock w
   \<and> timers (clearQueueMessages w) = timers w
   \<and> ui (clearQueueMessages w) =
       (ui w)\<lparr>queueMessages := [], responseMessage := Str ''Queue messages cleared''\<rparr>
   \<and> fst (await_request b Get_queue (fetch_queue b) (clearQueueMessages w)) =
       fst (await_request b Get_queue (fetch_queue b) w)
   \<and> queueMessages (ui (fetchQueueMessages b (clearQueueMessages w))) =
       queueMessages (ui (fetchQueueMessages b w))
   \<and> server (fetchQueueMessages b (clearQueueMessages w)) = server (fetchQueueMessages b w)"
  by (simp add: clearQueueMessages_def fetchQueueMessages_def await_request_def
      split: prod.splits sum.splits)

lemma fetch_queue_ready:
  "queueMessages (ui (fetchQueueMessages scripted (ready []))) = [''created Widget'']"
  by (simp add: fetchQueueMessages_def await_request_def fixture_defs)

text \<open>Fetch, clear, fetch again: the shop's queue is as it was.\<close>

theorem queue_clear_is_local_witness:
  "trace (clearQueueMessages (fetchQueueMessages scripted (ready []))) =
     trace (fetchQueueMessages scripted (ready []))
   \<and> queueMessages (ui (clearQueueMessages (fetchQueueMessages scripted (ready [])))) = []
   \<and> queueMessages (ui (fetchQueueMessages scripted (clearQueueMessages (ready [])))) =
       [''created Widget'']"
  using queue_clear_is_local [of "fetchQueueMessages scripted (ready [])" scripted]
    queue_clear_is_local [of "ready []" scripted] fetch_queue_ready
  by simp

subsection \<open>The cache probe\<close>

text \<open>What \<open>testRedisCache\<close> does when the clear request is rejected, and when it is not.\<close>

lemma testRedisCache_rejected:
  assumes "fst (clear_cache b (server w)) = Inl e"
  shows "testRedisCache b w =
    w\<lparr>ui := (ui w)\<lparr>cacheTestResults :=
                     \<lparr>firstFetchStatus = [], secondFetchStatus = [],
                      overallMessage = ''Error testing Redis cache''\<rparr>\<rparr>,
      server := snd (clear_cache b (server w)),
      clock := clock w + latency b (server w),
      trace := trace w @ [(clock w, Sent Get_cache_clear),
                          (clock w + latency b (server w), Settled Get_cache_clear False)]\<rparr>"
  using assms
  by (cases "clear_cache b (server w)") (simp add: testRedisCache_def await_request_def)

lemma testRedisCache_cleared:
  assumes "fst (clear_cache b (server w)) = Inr u"
  shows "trace (testRedisCache b w) =
           trace w @ [(clock w, Sent Get_cache_clear),
                      (clock w + latency b (server w), Settled Get_cache_clear True),
                      (clock w + latency b (server w), Sent Get_products),
                      (clock w + latency b (server w) + latency b (snd (clear_cache b (server w))),
                       Settled Get_products
                         (\<not> isl (fst (list_products b (snd (clear_cache b (server w))))))),
                      (clock w + latency b (server w) + latency b (snd (clear_cache b (server w))),
                       Timer_set 2000)]"
    and "timers (testRedisCache b w) =
           timers w @ [(clock w + latency b (server w)
                          + latency b (snd (clear_cache b (server w))), 2000)]"
    and "cacheTestResults (ui (testRedisCache b w)) =
           \<lparr>firstFetchStatus =
              ''First Fetch: Cache ''
              @ toString (case fst (list_products b (snd (clear_cache b (server w)))) of
                            Inl e \<Rightarrow> Null | Inr d \<Rightarrow> data_cacheStatus d),
            secondFetchStatus = [],
            overallMessage = ''Redis cache cleared. Testing cache...''\<rparr>"
  using assms
  by (simp_all add: testRedisCache_def Let_def case_prod_beta fetchProducts_fst)

lemma testRedisCache_timeout_trace [simp]:
  "trace (testRedisCache_timeout b w) =
     trace w @ [(clock w, Sent Get_products),
                (clock w + latency b (server w),
                 Settled Get_products (\<not> isl (fst (list_products b (server w)))))]"
  "timers (testRedisCache_timeout b w) = timers w"
  "clock (testRedisCache_timeout b w) = clock w + latency b (server w)"
  "server (testRedisCache_timeout b w) = snd (list_products b (server w))"
  by (simp_all add: testRedisCache_timeout_def Let_def case_prod_beta)

lemma testRedisCache_timeout_results:
  "cacheTestResults (ui (testRedisCache_timeout b w)) =
     (cacheTestResults (ui w))
       \<lparr>secondFetchStatus :=
          ''Second Fetch: Cache ''
          @ toString (case fst (list_products b (server w)) of
                        Inl e \<Rightarrow> Null | Inr d \<Rightarrow> data_cacheStatus d),
        overallMessage := ''Cache test completed. Check the statuses above.''\<rparr>"
  by (simp add: testRedisCache_timeout_def Let_def case_prod_beta fetchProducts_fst)

subsection \<open>Timers and the callback\<close>

text \<open>
  Whatever time passes, in however many steps, the trace only grows by runs of the timer
  callback, each for a timer that was pending and each no earlier than that timer is due.
\<close>

lemma advance_idle:
  "timers w = [] \<Longrightarrow> trace (advance b dt w) = trace w \<and> timers (advance b dt w) = []"
  by (simp add: advance_def)

lemma advances_idle:
  "timers w = [] \<Longrightarrow> trace (advances b dts w) = trace w \<and> timers (advances b dts w) = []"
proof (induction dts arbitrary: w)
  case Nil
  then show ?case by simp
next
  case (Cons dt dts)
  from Cons.prems have "trace (advance b dt w) = trace w" "timers (advance b dt w) = []"
    by (simp_all add: advance_idle)
  with Cons.IH [of "advance b dt w"] show ?case by simp
qed

lemma callback_runs_append:
  "callback_runs ts xs \<Longrightarrow> callback_runs ts ys \<Longrightarrow> callback_runs ts (xs @ ys)"
  by (induction ts xs rule: callback_runs.induct) simp_all

lemma callback_runs_mono:
  "callback_runs ts xs \<Longrightarrow> set ts \<subseteq> set ts' \<Longrightarrow> callback_runs ts' xs"
  by (induction ts xs rule: callback_runs.induct) auto

lemma fire_due_runs:
  "\<exists>evs. trace (fire_due b ts w) = trace w @ evs \<and> callback_runs ts evs
         \<and> set (timers (fire_due b ts w)) \<subseteq> set (timers w) \<union> set ts"
proof (induction ts arbitrary: w)
  case Nil
  show ?case by simp
next
  case (Cons p ts)
  obtain s d where p: "p = (s, d)" by (cases p)
  show ?case
  proof (cases "s + d \<le> clock w")
    case True
    let ?w' = "testRedisCache_timeout b (w\<lparr>trace := trace w @ [(clock w, Timer_fired s d)]\<rparr>)"
    from Cons.IH [of ?w'] obtain evs where
      evs: "trace (fire_due b ts ?w') = trace ?w' @ evs" "callback_runs ts evs"
        "set (timers (fire_due b ts ?w')) \<subseteq> set (timers ?w') \<union> set ts"
      by blast
    have runs: "callback_runs (p # ts) evs"
      using evs(2) by (rule callback_runs_mono) auto
    let ?run = "[(clock w, Timer_fired s d), (clock w, Sent Get_products),
                 (clock w + latency b (server w),
                  Settled Get_products (\<not> isl (fst (list_products b (server w)))))]"
    have "trace (fire_due b (p # ts) w) = trace w @ (?run @ evs)"
      using True evs(1) by (simp add: p)
    moreover have "callback_runs (p # ts) (?run @ evs)"
      using True runs by (simp add: p)
    moreover have "set (timers (fire_due b (p # ts) w)) \<subseteq> set (timers w) \<union> set (p # ts)"
      using True evs(3) by (auto simp: p)
    ultimately show ?thesis by blast
  next
    case False
    let ?w' = "w\<lparr>timers := timers w @ [(s, d)]\<rparr>"
    from Cons.IH [of ?w'] obtain evs where
      evs: "trace (fire_due b ts ?w') = trace ?w' @ evs" "callback_runs ts evs"
        "set (timers (fire_due b ts ?w')) \<subseteq> set (timers ?w') \<union> set ts"
      by blast
    have runs: "callback_runs (p # ts) evs"
      using evs(2) by (rule callback_runs_mono) auto
    have "trace (fire_due b (p # ts) w) = trace w @ evs"
      using False evs(1) by (simp add: p)
    moreover have "set (timers (fire_due b (p # ts) w)) \<subseteq> set (timers w) \<union> set (p # ts)"
      using False evs(3) by (auto simp: p)
    ultimately show ?thesis using runs by blast
  qed
qed

lemma advance_runs:
  "\<exists>evs. trace (advance b dt w) = trace w @ evs \<and> callback_runs (timers w) evs
         \<and> set (timers (advance b dt w)) \<subseteq> set (timers w)"
  using fire_due_runs [of b "timers w" "w\<lparr>clock := clock w + dt, timers := []\<rparr>"]
  by (simp add: advance_def)

lemma advances_runs:
  "\<exists>evs. trace (advances b dts w) = trace w @ evs \<and> callback_runs (timers w) evs
         \<and> set (timers (advances b dts w)) \<subseteq> set (timers w)"
proof (induction dts arbitrary: w)
  case Nil
  show ?case by simp
next
  case (Cons dt dts)
  from advance_runs [of b dt w] obtain evs where
    evs: "trace (advance b dt w) = trace w @ evs" "callback_runs (timers w) evs"
      "set (timers (advance b dt w)) \<subseteq> set (timers w)"
    by blast
  from Cons.IH [of "advance b dt w"] obtain evs' where
    evs': "trace (advances b dts (advance b dt w)) = trace (advance b dt w) @ evs'"
      "callback_runs (timers (advance b dt w)) evs'"
      "set (timers (advances b dts (advance b dt w))) \<subseteq> set (timers (advance b dt w))"
    by blast
  have "callback_runs (timers w) evs'"
    using evs'(2) evs(3) by (rule callback_runs_mono)
  with evs(2) have "callback_runs (timers w) (evs @ evs')"
    by (rule callback_runs_append)
  moreover have "trace (advances b (dt # dts) w) = trace w @ (evs @ evs')"
    using evs(1) evs'(1) by simp
  moreover have "set (timers (advances b (dt # dts) w)) \<subseteq> set (timers w)"
    using evs(3) evs'(3) by simp
  ultimately show ?case by blast
qed

lemma advances_new_events:
  "callback_runs (timers w) (drop (length (trace w)) (trace (advances b dts w)))"
  using advances_runs [of b dts w] by auto

subsection \<open>The probe when a request fails\<close>

text \<open>
  C5. When the clear request of a probe run is rejected, the run issues that one request and
  no catalogue fetch, sets no timer (so no second fetch can come from it: with no other timer
  pending the trace never grows again, whatever time passes), and leaves the failure message
  as the overall message, with both fetch statuses empty.
\<close>

theorem probe_short_circuit:
  assumes "fst (clear_cache b (server w)) = Inl e"
  shows "trace (testRedisCache b w) =
           trace w @ [(clock w, Sent Get_cache_clear),
                      (clock w + latency b (server w), Settled Get_cache_clear False)]
       \<and> fetches_issued (drop (length (trace w)) (trace (testRedisCache b w))) = []
       \<and> timers (testRedisCache b w) = timers w
       \<and> cacheTestResults (ui (testRedisCache b w)) =
           \<lparr>firstFetchStatus = [], secondFetchStatus = [],
            overallMessage = ''Error testing Redis cache''\<rparr>
       \<and> (timers w = [] \<longrightarrow>
            trace (advances b dts (testRedisCache b w)) = trace (testRedisCache b w))"
proof -
  note r = testRedisCache_rejected [OF assms]
  have t: "trace (testRedisCache b w) =
           trace w @ [(clock w, Sent Get_cache_clear),
                      (clock w + latency b (server w), Settled Get_cache_clear False)]"
    by (subst r) simp
  have ts: "timers (testRedisCache b w) = timers w"
    by (subst r) simp
  have c: "cacheTestResults (ui (testRedisCache b w)) =
           \<lparr>firstFetchStatus = [], secondFetchStatus = [],
            overallMessage = ''Error testing Redis cache''\<rparr>"
    by (subst r) simp
  have f: "fetches_issued (drop (length (trace w)) (trace (testRedisCache b w))) = []"
    by (simp add: t fetches_issued_def)
  have a: "timers w = [] \<longrightarrow>
            trace (advances b dts (testRedisCache b w)) = trace (testRedisCache b w)"
    using advances_idle [of "testRedisCache b w" b dts] ts by simp
  from t f ts c a show ?thesis by blast
qed

lemma clear_rejected_example:
  "fst (clear_cache scripted (server (ready [Reject network_error]))) = Inl network_error"
  by (simp add: fixture_defs)

text \<open>The shop rejects the clear request; three seconds later nothing else has happened.\<close>

theorem probe_short_circuit_witness:
  "fst (clear_cache scripted (server (ready [Reject network_error]))) = Inl network_error
   \<and> trace (advances scripted [1000, 1000, 1000] (testRedisCache scripted (ready [Reject network_error]))) =
       [(0, Sent Get_cache_clear), (30, Settled Get_cache_clear False)]
   \<and> overallMessage (cacheTestResults (ui (testRedisCache scripted (ready [Reject network_error]))))
       = ''Error testing Redis cache''"
proof -
  have idle: "timers (ready [Reject network_error]) = []"
    "trace (ready [Reject network_error]) = []"
    "clock (ready [Reject network_error]) = 0"
    "latency scripted (server (ready [Reject network_error])) = 30"
    by (simp_all add: fixture_defs)
  from probe_short_circuit [OF clear_rejected_example, of "[1000, 1000, 1000]"]
    clear_rejected_example
  show ?thesis
    by (simp add: idle)
qed

text \<open>
  C10. A catalogue fetch that fails makes \<open>fetchProducts\<close> return \<open>Null\<close>, which is none
  of the declared cache statuses, and the probe writes it into its status strings as it
  is: the first status reads ``First Fetch: Cache null'' when the first fetch fails, the
  second one ``Second Fetch: Cache null'' when the fetch of the callback fails.
\<close>

theorem failed_fetch_yields_null:
  "(fst (list_products b (server w)) = Inl e \<longrightarrow>
      fst (fetchProducts b w) = Null
      \<and> fst (fetchProducts b w) \<notin> declared_cacheStatus
      \<and> secondFetchStatus (cacheTestResults (ui (testRedisCache_timeout b w))) =
          ''Second Fetch: Cache null'')
   \<and> (fst (clear_cache b (server w)) = Inr u
      \<and> fst (list_products b (snd (clear_cache b (server w)))) = Inl e \<longrightarrow>
      firstFetchStatus (cacheTestResults (ui (testRedisCache b w))) =
        ''First Fetch: Cache null'')"
proof -
  have one: "fst (fetchProducts b w) = Null
      \<and> fst (fetchProducts b w) \<notin> declared_cacheStatus
      \<and> secondFetchStatus (cacheTestResults (ui (testRedisCache_timeout b w))) =
          ''Second Fetch: Cache null''"
    if "fst (list_products b (server w)) = Inl e"
    using that by (simp add: fetchProducts_fst declared_cacheStatus_def
        testRedisCache_timeout_results)
  have two: "firstFetchStatus (cacheTestResults (ui (testRedisCache b w))) =
        ''First Fetch: Cache null''"
    if "fst (clear_cache b (server w)) = Inr u"
      and "fst (list_products b (snd (clear_cache b (server w)))) = Inl e"
    using that by (simp add: testRedisCache_cleared(3))
  from one two show ?thesis by blast
qed

lemma fetch_rejected_example:
  "fst (list_products scripted (server (ready [Reject network_error]))) = Inl network_error"
  by (simp add: fixture_defs)

lemma first_fetch_rejected_example:
  "fst (clear_cache scripted (server (ready [Accept, Reject network_error]))) = Inr ()
   \<and> fst (list_products scripted
            (snd (clear_cache scripted (server (ready [Accept, Reject network_error])))))
       = Inl network_error"
  by (simp add: fixture_defs)

text \<open>The shop rejects the catalogue fetch, alone and as the first fetch of a probe run.\<close>

theorem failed_fetch_yields_null_witness:
  "fst (list_products scripted (server (ready [Reject network_error]))) = Inl network_error
   \<and> fst (fetchProducts scripted (ready [Reject network_error])) = Null
   \<and> secondFetchStatus
         (cacheTestResults (ui (testRedisCache_timeout scripted (ready [Reject network_error]))))
       = ''Second Fetch: Cache null''
   \<and> firstFetchStatus
         (cacheTestResults (ui (testRedisCache scripted (ready [Accept, Reject network_error]))))
       = ''First Fetch: Cache null''"
  using failed_fetch_yields_null
      [where b = scripted and w = "ready [Reject network_error]" and e = network_error]
    failed_fetch_yields_null
      [where b = scripted and w = "ready [Accept, Reject network_error]" and u = "()"
         and e = network_error]
    fetch_rejected_example first_fetch_rejected_example
  by simp

subsection \<open>A pending timer fires\<close>

text \<open>
  When time passes, a pending timer either runs its callback, which leaves the completion
  message behind, or it is not due yet and stays pending.
\<close>

lemma fire_due_clock: "clock w \<le> clock (fire_due b ts w)"
proof (induction ts arbitrary: w)
  case Nil
  show ?case by simp
next
  case (Cons p ts)
  obtain s d where p: "p = (s, d)" by (cases p)
  show ?case
  proof (cases "s + d \<le> clock w")
    case True
    let ?w' = "testRedisCache_timeout b (w\<lparr>trace := trace w @ [(clock w, Timer_fired s d)]\<rparr>)"
    have "clock w \<le> clock ?w'" by simp
    also have "\<dots> \<le> clock (fire_due b ts ?w')" by (rule Cons.IH)
    finally show ?thesis using True by (simp add: p)
  next
    case False
    with Cons.IH [of "w\<lparr>timers := timers w @ [(s, d)]\<rparr>"] show ?thesis by (simp add: p)
  qed
qed

lemma fire_due_timers: "set (timers w) \<subseteq> set (timers (fire_due b ts w))"
proof (induction ts arbitrary: w)
  case Nil
  show ?case by simp
next
  case (Cons p ts)
  obtain s d where p: "p = (s, d)" by (cases p)
  show ?case
  proof (cases "s + d \<le> clock w")
    case True
    with Cons.IH [of "testRedisCache_timeout b
        (w\<lparr>trace := trace w @ [(clock w, Timer_fired s d)]\<rparr>)"]
    show ?thesis by (simp add: p)
  next
    case False
    with Cons.IH [of "w\<lparr>timers := timers w @ [(s, d)]\<rparr>"] show ?thesis by (auto simp: p)
  qed
qed

lemma fire_due_completed:
  "overallMessage (cacheTestResults (ui w)) = ''Cache test completed. Check the statuses above.''
   \<Longrightarrow> overallMessage (cacheTestResults (ui (fire_due b ts w))) =
         ''Cache test completed. Check the statuses above.''"
proof (induction ts arbitrary: w)
  case Nil
  then show ?case by simp
next
  case (Cons p ts)
  obtain s d where p: "p = (s, d)" by (cases p)
  show ?case
  proof (cases "s + d \<le> clock w")
    case True
    have "overallMessage (cacheTestResults (ui (testRedisCache_timeout b
            (w\<lparr>trace := trace w @ [(clock w, Timer_fired s d)]\<rparr>)))) =
          ''Cache test completed. Check the statuses above.''"
      by (simp add: testRedisCache_timeout_results)
    from Cons.IH [OF this] True show ?thesis by (simp add: p)
  next
    case False
    have "overallMessage (cacheTestResults (ui (w\<lparr>timers := timers w @ [(s, d)]\<rparr>))) =
          ''Cache test completed. Check the statuses above.''"
      using Cons.prems by simp
    from Cons.IH [OF this] False show ?thesis by (simp add: p)
  qed
qed

lemma fire_due_pending:
  assumes "(s, d) \<in> set ts"
  shows "(callback_ran s d (trace w) (trace (fire_due b ts w))
          \<and> overallMessage (cacheTestResults (ui (fire_due b ts w))) =
              ''Cache test completed. Check the statuses above.'')
       \<or> ((s, d) \<in> set (timers (fire_due b ts w)) \<and> \<not> s + d \<le> clock w)"
  using assms
proof (induction ts arbitrary: w)
  case Nil
  then show ?case by simp
next
  case (Cons p ts)
  obtain s0 d0 where p: "p = (s0, d0)" by (cases p)
  let ?fired = "testRedisCache_timeout b (w\<lparr>trace := trace w @ [(clock w, Timer_fired s0 d0)]\<rparr>)"
  let ?kept = "w\<lparr>timers := timers w @ [(s0, d0)]\<rparr>"
  show ?case
  proof (cases "p = (s, d)")
    case True
    then have sd: "s0 = s" "d0 = d" using p by simp_all
    show ?thesis
    proof (cases "s + d \<le> clock w")
      case True
      from fire_due_runs [of b ts ?fired] obtain post where
        post: "trace (fire_due b ts ?fired) = trace ?fired @ post" by blast
      have "trace (fire_due b (p # ts) w) =
          trace w @ [] @ [(clock w, Timer_fired s d), (clock w, Sent Get_products),
            (clock w + latency b (server w),
             Settled Get_products (\<not> isl (fst (list_products b (server w)))))] @ post"
        using True post by (simp add: p sd)
      then have "callback_ran s d (trace w) (trace (fire_due b (p # ts) w))"
        using True by blast
      moreover have "overallMessage (cacheTestResults (ui (fire_due b (p # ts) w))) =
              ''Cache test completed. Check the statuses above.''"
        using True fire_due_completed [of ?fired b ts]
        by (simp add: p sd testRedisCache_timeout_results)
      ultimately show ?thesis by blast
    next
      case False
      have "(s, d) \<in> set (timers ?kept)" by (simp add: sd)
      with fire_due_timers [of ?kept b ts]
      have "(s, d) \<in> set (timers (fire_due b (p # ts) w))"
        using False by (auto simp: p sd)
      with False show ?thesis by blast
    qed
  next
    case False
    with Cons.prems have mem: "(s, d) \<in> set ts" by simp
    show ?thesis
    proof (cases "s0 + d0 \<le> clock w")
      case True
      have step: "fire_due b (p # ts) w = fire_due b ts ?fired"
        using True by (simp add: p)
      have grow: "trace ?fired = trace w @ [(clock w, Timer_fired s0 d0), (clock w, Sent Get_products),
            (clock w + latency b (server w),
             Settled Get_products (\<not> isl (fst (list_products b (server w)))))]"
        by simp
      from Cons.IH [OF mem, of ?fired] show ?thesis
      proof
        assume a: "callback_ran s d (trace ?fired) (trace (fire_due b ts ?fired))
          \<and> overallMessage (cacheTestResults (ui (fire_due b ts ?fired))) =
              ''Cache test completed. Check the statuses above.''"
        then obtain pre t t' ok post where
          tr: "trace (fire_due b ts ?fired) =
             trace ?fired @ pre @ [(t, Timer_fired s d), (t, Sent Get_products),
                          (t', Settled Get_products ok)] @ post" and le: "s + d \<le> t"
          by blast
        have "trace (fire_due b ts ?fired) =
             trace w @ ([(clock w, Timer_fired s0 d0), (clock w, Sent Get_products),
            (clock w + latency b (server w),
             Settled Get_products (\<not> isl (fst (list_products b (server w)))))] @ pre)
              @ [(t, Timer_fired s d), (t, Sent Get_products),
                          (t', Settled Get_products ok)] @ post"
          unfolding tr grow by simp
        with le have "callback_ran s d (trace w) (trace (fire_due b ts ?fired))" by blast
        with a show ?thesis unfolding step by blast
      next
        assume a: "(s, d) \<in> set (timers (fire_due b ts ?fired)) \<and> \<not> s + d \<le> clock ?fired"
        then have "\<not> s + d \<le> clock w" by simp
        with a show ?thesis unfolding step by blast
      qed
    next
      case False
      have step: "fire_due b (p # ts) w = fire_due b ts ?kept"
        using False by (simp add: p)
      from Cons.IH [OF mem, of ?kept] show ?thesis
        unfolding step by simp
    qed
  qed
qed

text \<open>
  A probe run on the shop in which the clear request goes through and the first catalogue
  fetch is rejected.
\<close>

lemma probe_run_first_fetch_rejected:
  "testRedisCache scripted (ready [Accept, Reject network_error]) =
     \<lparr>ui = initial_state
             \<lparr>products := [widget], loading := False,
              error := Str ''Error fetching products: Network Error. Please try again later.'',
              cacheTestResults :=
                \<lparr>firstFetchStatus = ''First Fetch: Cache null'', secondFetchStatus = [],
                 overallMessage = ''Redis cache cleared. Testing cache...''\<rparr>\<rparr>,
      server = \<lparr>script = [], stock = [widget], cached = False, queue = [''created Widget'']\<rparr>,
      clock = 60, timers = [(60, 2000)],
      trace = [(0, Sent Get_cache_clear), (30, Settled Get_cache_clear True),
               (30, Sent Get_products), (60, Settled Get_products False),
               (60, Timer_set 2000)]\<rparr>"
  by (simp add: testRedisCache_def fetchProducts_def await_request_def fixture_defs)

text \<open>
  C1 as stated does not hold: in that run the first fetch fails at time 60, and still the
  timer is set, the second fetch is issued when the timer fires, and the run ends with the
  completion message, not with the failure message.
\<close>

theorem probe_survives_failed_fetch:
  "overallMessage
     (cacheTestResults (ui (testRedisCache scripted (ready [Accept, Reject network_error]))))
     \<noteq> ''Error testing Redis cache''
   \<and> trace (advance scripted 2000 (testRedisCache scripted (ready [Accept, Reject network_error]))) =
     [(0, Sent Get_cache_clear), (30, Settled Get_cache_clear True),
      (30, Sent Get_products), (60, Settled Get_products False),
      (60, Timer_set 2000), (2060, Timer_fired 60 2000),
      (2060, Sent Get_products), (2090, Settled Get_products True)]
   \<and> cacheTestResults
        (ui (advance scripted 2000 (testRedisCache scripted (ready [Accept, Reject network_error])))) =
       \<lparr>firstFetchStatus = ''First Fetch: Cache null'',
        secondFetchStatus = ''Second Fetch: Cache miss'',
        overallMessage = ''Cache test completed. Check the statuses above.''\<rparr>"
  unfolding probe_run_first_fetch_rejected
  by (simp add: advance_def testRedisCache_timeout_def fetchProducts_def await_request_def
      fixture_defs)

text \<open>
  Once the time that has passed adds up to a timer's delay, in however many steps, the
  callback of that timer has run.
\<close>

lemma advance_clock: "clock w + dt \<le> clock (advance b dt w)"
  using fire_due_clock [of "w\<lparr>clock := clock w + dt, timers := []\<rparr>" b "timers w"]
  by (simp add: advance_def)

lemma advance_pending:
  assumes "(s, d) \<in> set (timers w)"
  shows "(callback_ran s d (trace w) (trace (advance b dt w))
          \<and> overallMessage (cacheTestResults (ui (advance b dt w))) =
              ''Cache test completed. Check the statuses above.'')
       \<or> ((s, d) \<in> set (timers (advance b dt w)) \<and> \<not> s + d \<le> clock w + dt)"
  using fire_due_pending
      [OF assms, where w = "w\<lparr>clock := clock w + dt, timers := []\<rparr>" and b = b]
  by (simp add: advance_def)

lemma advances_completed:
  "overallMessage (cacheTestResults (ui w)) = ''Cache test completed. Check the statuses above.''
   \<Longrightarrow> overallMessage (cacheTestResults (ui (advances b dts w))) =
         ''Cache test completed. Check the statuses above.''"
proof (induction dts arbitrary: w)
  case Nil
  then show ?case by simp
next
  case (Cons dt dts)
  have "overallMessage (cacheTestResults (ui (advance b dt w))) =
          ''Cache test completed. Check the statuses above.''"
    using Cons.prems
      fire_due_completed [of "w\<lparr>clock := clock w + dt, timers := []\<rparr>" b "timers w"]
    by (simp add: advance_def)
  from Cons.IH [OF this] show ?case by simp
qed

lemma advances_fires:
  assumes "(s, d) \<in> set (timers w)" and "dts \<noteq> []" and "s + d \<le> clock w + sum_list dts"
  shows "callback_ran s d (trace w) (trace (advances b dts w))
       \<and> overallMessage (cacheTestResults (ui (advances b dts w))) =
           ''Cache test completed. Check the statuses above.''"
  using assms
proof (induction dts arbitrary: w)
  case Nil
  then show ?case by simp
next
  case (Cons dt dts)
  let ?w' = "advance b dt w"
  from advance_pending [OF Cons.prems(1), where b = b and dt = dt] show ?case
  proof
    assume a: "callback_ran s d (trace w) (trace ?w')
          \<and> overallMessage (cacheTestResults (ui ?w')) =
              ''Cache test completed. Check the statuses above.''"
    then obtain pre t t' ok post where
      tr: "trace ?w' = trace w @ pre @ [(t, Timer_fired s d), (t, Sent Get_products),
                          (t', Settled Get_products ok)] @ post" and le: "s + d \<le> t"
      by blast
    from advances_runs [of b dts ?w'] obtain evs where
      evs: "trace (advances b dts ?w') = trace ?w' @ evs" by blast
    have "trace (advances b (dt # dts) w) =
        trace w @ pre @ [(t, Timer_fired s d), (t, Sent Get_products),
                          (t', Settled Get_products ok)] @ (post @ evs)"
      using evs tr by simp
    with le have "callback_ran s d (trace w) (trace (advances b (dt # dts) w))" by blast
    moreover have "overallMessage (cacheTestResults (ui (advances b (dt # dts) w))) =
           ''Cache test completed. Check the statuses above.''"
      using a advances_completed [of ?w' b dts] by simp
    ultimately show ?thesis by blast
  next
    assume a: "(s, d) \<in> set (timers ?w') \<and> \<not> s + d \<le> clock w + dt"
    with Cons.prems(3) have ne: "dts \<noteq> []" by (cases dts) auto
    have "s + d \<le> clock ?w' + sum_list dts"
      using Cons.prems(3) advance_clock [of w dt b] by simp
    from Cons.IH [OF _ ne this] a
    have ih: "callback_ran s d (trace ?w') (trace (advances b dts ?w'))"
      and msg: "overallMessage (cacheTestResults (ui (advances b dts ?w'))) =
           ''Cache test completed. Check the statuses above.''"
      by blast+
    from ih obtain pre t t' ok post where
      tr: "trace (advances b dts ?w') = trace ?w' @ pre @ [(t, Timer_fired s d),
          (t, Sent Get_products), (t', Settled Get_products ok)] @ post" and le: "s + d \<le> t"
      by blast
    from advance_runs [of b dt w] obtain evs where
      evs: "trace ?w' = trace w @ evs" by blast
    have "trace (advances b (dt # dts) w) =
        trace w @ (evs @ pre) @ [(t, Timer_fired s d), (t, Sent Get_products),
                          (t', Settled Get_products ok)] @ post"
      using evs tr by simp
    with le have "callback_ran s d (trace w) (trace (advances b (dt # dts) w))" by blast
    with msg show ?thesis by simp
  qed
qed

lemma testRedisCache_cleared_clock:
  assumes "fst (clear_cache b (server w)) = Inr u"
  shows "clock (testRedisCache b w) =
           clock w + latency b (server w) + latency b (snd (clear_cache b (server w)))"
  using assms
  by (simp add: testRedisCache_def Let_def case_prod_beta)

text \<open>
  C1, amended. The probe takes its failure path exactly through the clear request: when
  that request is rejected the overall message is the failure message, no timer is set and
  no catalogue fetch is issued. When it goes through, then whatever the first fetch answers
  the overall message says that the test goes on, the first status holds what the fetch
  returned (\<open>Null\<close> when it failed), and the timer is set with a delay of 2000; and once
  2000 units of time have passed, in however many steps, the trace holds the firing of that
  timer, no earlier than it was due, with the second catalogue fetch issued at that moment
  and settled, with success or failure, and the overall message is the completion message.
\<close>

theorem probe_fails_only_on_clear:
  "(fst (clear_cache b (server w)) = Inl e \<longrightarrow>
      overallMessage (cacheTestResults (ui (testRedisCache b w))) = ''Error testing Redis cache''
      \<and> timers (testRedisCache b w) = timers w
      \<and> fetches_issued (drop (length (trace w)) (trace (testRedisCache b w))) = [])
   \<and> (fst (clear_cache b (server w)) = Inr u \<longrightarrow>
      overallMessage (cacheTestResults (ui (testRedisCache b w))) =
        ''Redis cache cleared. Testing cache...''
      \<and> firstFetchStatus (cacheTestResults (ui (testRedisCache b w))) =
          ''First Fetch: Cache ''
          @ toString (case fst (list_products b (snd (clear_cache b (server w)))) of
                        Inl e' \<Rightarrow> Null | Inr d \<Rightarrow> data_cacheStatus d)
      \<and> timers (testRedisCache b w) =
          timers w @ [(clock w + latency b (server w)
                         + latency b (snd (clear_cache b (server w))), 2000)]
      \<and> (2000 \<le> sum_list dts \<longrightarrow>
            callback_ran
              (clock w + latency b (server w) + latency b (snd (clear_cache b (server w))))
              2000 (trace (testRedisCache b w))
              (trace (advances b dts (testRedisCache b w)))
            \<and> overallMessage (cacheTestResults (ui (advances b dts (testRedisCache b w)))) =
                ''Cache test completed. Check the statuses above.''))"
proof -
  have rejected: "overallMessage (cacheTestResults (ui (testRedisCache b w))) =
        ''Error testing Redis cache''
      \<and> timers (testRedisCache b w) = timers w
      \<and> fetches_issued (drop (length (trace w)) (trace (testRedisCache b w))) = []"
    if r: "fst (clear_cache b (server w)) = Inl e"
    by (subst (1 2 3) testRedisCache_rejected [OF r]) (simp add: fetches_issued_def)
  let ?set = "clock w + latency b (server w) + latency b (snd (clear_cache b (server w)))"
  have first_phase: "overallMessage (cacheTestResults (ui (testRedisCache b w))) =
        ''Redis cache cleared. Testing cache...''
      \<and> firstFetchStatus (cacheTestResults (ui (testRedisCache b w))) =
          ''First Fetch: Cache ''
          @ toString (case fst (list_products b (snd (clear_cache b (server w)))) of
                        Inl e' \<Rightarrow> Null | Inr d \<Rightarrow> data_cacheStatus d)
      \<and> timers (testRedisCache b w) = timers w @ [(?set, 2000)]"
    if r: "fst (clear_cache b (server w)) = Inr u"
    by (simp add: testRedisCache_cleared [OF r])
  have second_phase: "callback_ran ?set 2000 (trace (testRedisCache b w))
              (trace (advances b dts (testRedisCache b w)))
            \<and> overallMessage (cacheTestResults (ui (advances b dts (testRedisCache b w)))) =
                ''Cache test completed. Check the statuses above.''"
    if r: "fst (clear_cache b (server w)) = Inr u" and late: "2000 \<le> sum_list dts"
  proof (rule advances_fires)
    show "(?set, 2000) \<in> set (timers (testRedisCache b w))"
      by (simp add: testRedisCache_cleared(2) [OF r])
    show "dts \<noteq> []" using late by (cases dts) auto
    show "?set + 2000 \<le> clock (testRedisCache b w) + sum_list dts"
      using late by (simp add: testRedisCache_cleared_clock [OF r])
  qed
  from rejected first_phase second_phase show ?thesis by blast
qed

lemma probe_run_first_fetch_rejected_due:
  "trace (advances scripted [1000, 1000]
            (testRedisCache scripted (ready [Accept, Reject network_error]))) =
     [(0, Sent Get_cache_clear), (30, Settled Get_cache_clear True),
      (30, Sent Get_products), (60, Settled Get_products False), (60, Timer_set 2000),
      (2060, Timer_fired 60 2000), (2060, Sent Get_products),
      (2090, Settled Get_products True)]"
  unfolding probe_run_first_fetch_rejected
  by (simp add: advance_def testRedisCache_timeout_def fetchProducts_def await_request_def
      fixture_defs)

text \<open>
  The two runs on the shop: the clear request rejected, and the clear request accepted
  with the first fetch failing. In the second one the timer is set at time 60 and the
  callback issues the second fetch at time 2060.
\<close>

theorem probe_fails_only_on_clear_witness:
  "fst (clear_cache scripted (server (ready [Reject network_error]))) = Inl network_error
   \<and> overallMessage (cacheTestResults (ui (testRedisCache scripted (ready [Reject network_error]))))
       = ''Error testing Redis cache''
   \<and> timers (testRedisCache scripted (ready [Reject network_error])) = []
   \<and> fst (clear_cache scripted (server (ready [Accept, Reject network_error]))) = Inr ()
   \<and> fst (list_products scripted
            (snd (clear_cache scripted (server (ready [Accept, Reject network_error])))))
       = Inl network_error
   \<and> overallMessage
         (cacheTestResults (ui (testRedisCache scripted (ready [Accept, Reject network_error]))))
       = ''Redis cache cleared. Testing cache...''
   \<and> firstFetchStatus
         (cacheTestResults (ui (testRedisCache scripted (ready [Accept, Reject network_error]))))
       = ''First Fetch: Cache null''
   \<and> timers (testRedisCache scripted (ready [Accept, Reject network_error])) = [(60, 2000)]
   \<and> trace (advances scripted [1000, 1000]
               (testRedisCache scripted (ready [Accept, Reject network_error]))) =
       [(0, Sent Get_cache_clear), (30, Settled Get_cache_clear True),
        (30, Sent Get_products), (60, Settled Get_products False), (60, Timer_set 2000),
        (2060, Timer_fired 60 2000), (2060, Sent Get_products),
        (2090, Settled Get_products True)]
   \<and> overallMessage
         (cacheTestResults
            (ui (advances scripted [1000, 1000]
                   (testRedisCache scripted (ready [Accept, Reject network_error])))))
       = ''Cache test completed. Check the statuses above.''"
proof -
  have idle: "timers (ready rs) = []" "clock (ready rs) = 0"
    "latency scripted sh = 30" for rs sh
    by (simp_all add: fixture_defs)
  have late: "(2000::nat) \<le> sum_list [1000, 1000]"
    by simp
  from probe_fails_only_on_clear
      [where b = scripted and w = "ready [Reject network_error]" and e = network_error]
    probe_fails_only_on_clear
      [where b = scripted and w = "ready [Accept, Reject network_error]" and u = "()"
         and dts = "[1000, 1000]"]
    clear_rejected_example first_fetch_rejected_example late
    probe_run_first_fetch_rejected_due
  show ?thesis
    by (simp add: idle del: advances.simps sum_list.Cons)
qed

subsection \<open>The message of a failed write\<close>

text \<open>
  C6 as stated does not hold: the shop rejects a create, and then a delete, with a response
  whose body has no \<^verbatim>\<open>message\<close> field. The status message becomes \<open>Undefined\<close> in
  both handlers, not the fallback text.
\<close>

theorem bare_error_shows_no_fallback:
  "err_response bare_error = Some (Data Undefined)
   \<and> fst (submit_request scripted (drafting [Reject bare_error])) = Inl bare_error
   \<and> responseMessage (ui (handleAddOrUpdateProduct scripted (drafting [Reject bare_error])))
       = Undefined
   \<and> responseMessage (ui (handleAddOrUpdateProduct scripted (drafting [Reject bare_error])))
       \<noteq> Str ''Failed to perform operation''
   \<and> fst (delete_product scripted (Num ''1'') (server (ready [Reject bare_error])))
       = Inl bare_error
   \<and> responseMessage (ui (handleDeleteProduct scripted (Num ''1'') (ready [Reject bare_error])))
       = Undefined
   \<and> responseMessage (ui (handleDeleteProduct scripted (Num ''1'') (ready [Reject bare_error])))
       \<noteq> Str ''Failed to delete product''"
  by (simp add: handleAddOrUpdateProduct_def handleDeleteProduct_def submit_request_def
      await_request_def fixture_defs)

text \<open>
  C6, amended. What decides is whether the failure carries a response, not whether the
  response carries a message. Without a response the status message is the handler's
  fallback text. With a response that has a body it is the body's \<^verbatim>\<open>message\<close> field as it
  is, \<open>Undefined\<close> when there is no such field. With a response that has no body the catch
  throws before it writes, and the status message is the one from before.
\<close>

theorem failure_message_shown:
  "(fst (submit_request b w) = Inl e \<longrightarrow>
      responseMessage (ui (handleAddOrUpdateProduct b w)) =
        (case err_response e of
           None \<Rightarrow> Str ''Failed to perform operation''
         | Some No_data \<Rightarrow> responseMessage (ui w)
         | Some (Data m) \<Rightarrow> m))
   \<and> (fst (delete_product b i (server w)) = Inl e \<longrightarrow>
      responseMessage (ui (handleDeleteProduct b i w)) =
        (case err_response e of
           None \<Rightarrow> Str ''Failed to delete product''
         | Some No_data \<Rightarrow> responseMessage (ui w)
         | Some (Data m) \<Rightarrow> m))"
proof -
  have submit: "responseMessage (ui (handleAddOrUpdateProduct b w)) =
        (case err_response e of
           None \<Rightarrow> Str ''Failed to perform operation''
         | Some No_data \<Rightarrow> responseMessage (ui w)
         | Some (Data m) \<Rightarrow> m)"
    if "fst (submit_request b w) = Inl e"
    by (subst handleAddOrUpdateProduct_rejected [OF that]) simp
  have delete: "responseMessage (ui (handleDeleteProduct b i w)) =
        (case err_response e of
           None \<Rightarrow> Str ''Failed to delete product''
         | Some No_data \<Rightarrow> responseMessage (ui w)
         | Some (Data m) \<Rightarrow> m)"
    if "fst (delete_product b i (server w)) = Inl e"
    by (subst handleDeleteProduct_rejected [OF that]) simp
  from submit delete show ?thesis by blast
qed

lemma delete_rejected_example:
  "fst (delete_product scripted (Num ''1'') (server (ready [Reject network_error])))
     = Inl network_error"
  by (simp add: fixture_defs)

lemma submit_drafting_bodiless:
  "fst (submit_request scripted (drafting [Reject bodiless_error])) = Inl bodiless_error"
  by (simp add: submit_request_def fixture_defs)

lemma bodiless_submit_throws:
  "trace (handleAddOrUpdateProduct scripted (drafting [Reject bodiless_error])) =
     [(0, Sent (Post_products (Str ''Gadget'') (Num ''14.5''))),
      (30, Settled (Post_products (Str ''Gadget'') (Num ''14.5'')) False),
      (30, Uncaught_TypeError)]"
  by (simp add: handleAddOrUpdateProduct_def submit_request_def await_request_def fixture_defs)

text \<open>
  A create rejected with a message, a delete that never reached the shop, and a create
  rejected without a body: the handler throws and the status is still the empty one.
\<close>

theorem failure_message_shown_witness:
  "fst (submit_request scripted (drafting [Reject server_error])) = Inl server_error
   \<and> responseMessage (ui (handleAddOrUpdateProduct scripted (drafting [Reject server_error])))
       = Str ''Product not found''
   \<and> fst (delete_product scripted (Num ''1'') (server (ready [Reject network_error])))
       = Inl network_error
   \<and> responseMessage (ui (handleDeleteProduct scripted (Num ''1'') (ready [Reject network_error])))
       = Str ''Failed to delete product''
   \<and> fst (submit_request scripted (drafting [Reject bodiless_error])) = Inl bodiless_error
   \<and> responseMessage (ui (handleAddOrUpdateProduct scripted (drafting [Reject bodiless_error])))
       = Str []
   \<and> trace (handleAddOrUpdateProduct scripted (drafting [Reject bodiless_error])) =
       [(0, Sent (Post_products (Str ''Gadget'') (Num ''14.5''))),
        (30, Settled (Post_products (Str ''Gadget'') (Num ''14.5'')) False),
        (30, Uncaught_TypeError)]"
proof -
  have shown: "err_response server_error = Some (Data (Str ''Product not found''))"
    "err_response network_error = None"
    "err_response bodiless_error = Some No_data"
    by (simp_all add: server_error_def network_error_def bodiless_error_def)
  have before: "responseMessage (ui (drafting rs)) = Str []" for rs
    by (simp add: fixture_defs)
  from failure_message_shown
      [where b = scripted and w = "drafting [Reject server_error]" and e = server_error]
    failure_message_shown
      [where b = scripted and w = "ready [Reject network_error]" and i = "Num ''1''"
         and e = network_error]
    failure_message_shown
      [where b = scripted and w = "drafting [Reject bodiless_error]" and e = bodiless_error]
    submit_drafting_rejected delete_rejected_example submit_drafting_bodiless
    bodiless_submit_throws
  show ?thesis
    by (simp add: shown before)
qed

subsection \<open>The order of a probe run\<close>

text \<open>
  C4. A probe run first issues the clear request and resumes only when it has settled. If
  it was rejected the run ends there. Otherwise the run issues the first catalogue fetch,
  resumes when that fetch has settled, with success or failure, and only then sets the
  timer, with a delay of 2000; these five events are all that \<open>testRedisCache\<close> itself adds
  to the trace, so the second fetch is never issued by the handler. Whatever time passes
  afterwards, in any number of steps, the trace grows only by runs of the timer callback:
  each one is for a pending timer, starts no earlier than the time that timer was set plus
  its delay, and issues its fetch at that moment.
\<close>

theorem probe_ordering:
  "(case fst (clear_cache b (server w)) of
      Inl e \<Rightarrow>
        trace (testRedisCache b w) =
          trace w @ [(clock w, Sent Get_cache_clear),
                     (clock w + latency b (server w), Settled Get_cache_clear False)]
        \<and> timers (testRedisCache b w) = timers w
    | Inr u \<Rightarrow>
        trace (testRedisCache b w) =
          trace w @ [(clock w, Sent Get_cache_clear),
                     (clock w + latency b (server w), Settled Get_cache_clear True),
                     (clock w + latency b (server w), Sent Get_products),
                     (clock w + latency b (server w) + latency b (snd (clear_cache b (server w))),
                      Settled Get_products
                        (\<not> isl (fst (list_products b (snd (clear_cache b (server w))))))),
                     (clock w + latency b (server w) + latency b (snd (clear_cache b (server w))),
                      Timer_set 2000)]
        \<and> timers (testRedisCache b w) =
            timers w @ [(clock w + latency b (server w)
                           + latency b (snd (clear_cache b (server w))), 2000)])
   \<and> callback_runs (timers (testRedisCache b w))
        (drop (length (trace (testRedisCache b w)))
           (trace (advances b dts (testRedisCache b w))))"
proof -
  have first_phase: "case fst (clear_cache b (server w)) of
      Inl e \<Rightarrow>
        trace (testRedisCache b w) =
          trace w @ [(clock w, Sent Get_cache_clear),
                     (clock w + latency b (server w), Settled Get_cache_clear False)]
        \<and> timers (testRedisCache b w) = timers w
    | Inr u \<Rightarrow>
        trace (testRedisCache b w) =
          trace w @ [(clock w, Sent Get_cache_clear),
                     (clock w + latency b (server w), Settled Get_cache_clear True),
                     (clock w + latency b (server w), Sent Get_products),
                     (clock w + latency b (server w) + latency b (snd (clear_cache b (server w))),
                      Settled Get_products
                        (\<not> isl (fst (list_products b (snd (clear_cache b (server w))))))),
                     (clock w + latency b (server w) + latency b (snd (clear_cache b (server w))),
                      Timer_set 2000)]
        \<and> timers (testRedisCache b w) =
            timers w @ [(clock w + latency b (server w)
                           + latency b (snd (clear_cache b (server w))), 2000)]"
  proof (cases "fst (clear_cache b (server w))")
    case (Inl e)
    have "trace (testRedisCache b w) =
          trace w @ [(clock w, Sent Get_cache_clear),
                     (clock w + latency b (server w), Settled Get_cache_clear False)]"
      by (subst testRedisCache_rejected [OF Inl]) simp
    moreover have "timers (testRedisCache b w) = timers w"
      by (subst testRedisCache_rejected [OF Inl]) simp
    ultimately show ?thesis using Inl by simp
  next
    case (Inr u)
    from testRedisCache_cleared(1,2) [OF Inr] Inr show ?thesis by simp
  qed
  from first_phase advances_new_events [of "testRedisCache b w" b dts] show ?thesis
    by blast
qed

text \<open>A probe run on the shop with every request accepted.\<close>

lemma probe_run_example:
  "testRedisCache scripted (ready []) =
     \<lparr>ui = initial_state
             \<lparr>products := [widget], loading := False,
              cacheTestResults :=
                \<lparr>firstFetchStatus = ''First Fetch: Cache miss'', secondFetchStatus = [],
                 overallMessage = ''Redis cache cleared. Testing cache...''\<rparr>\<rparr>,
      server = \<lparr>script = [], stock = [widget], cached = True, queue = [''created Widget'']\<rparr>,
      clock = 60, timers = [(60, 2000)],
      trace = [(0, Sent Get_cache_clear), (30, Settled Get_cache_clear True),
               (30, Sent Get_products), (60, Settled Get_products True),
               (60, Timer_set 2000)]\<rparr>"
  by (simp add: testRedisCache_def fetchProducts_def await_request_def fixture_defs)

lemma probe_run_example_early:
  "trace (advances scripted [1000] (testRedisCache scripted (ready []))) =
     [(0, Sent Get_cache_clear), (30, Settled Get_cache_clear True),
      (30, Sent Get_products), (60, Settled Get_products True), (60, Timer_set 2000)]"
  unfolding probe_run_example
  by (simp add: advance_def)

lemma probe_run_example_due:
  "trace (advances scripted [1000, 1000] (testRedisCache scripted (ready []))) =
     [(0, Sent Get_cache_clear), (30, Settled Get_cache_clear True),
      (30, Sent Get_products), (60, Settled Get_products True), (60, Timer_set 2000),
      (2060, Timer_fired 60 2000), (2060, Sent Get_products),
      (2090, Settled Get_products True)]"
  unfolding probe_run_example
  by (simp add: advance_def testRedisCache_timeout_def fetchProducts_def await_request_def
      fixture_defs)

text \<open>
  In that run the timer is set at time 60. After 1000 units nothing has been added to the
  trace; after 1000 more, at time 2060, the callback runs and issues the second fetch.
\<close>

theorem probe_ordering_witness:
  "fst (clear_cache scripted (server (ready []))) = Inr ()
   \<and> trace (testRedisCache scripted (ready [])) =
       [(0, Sent Get_cache_clear), (30, Settled Get_cache_clear True),
        (30, Sent Get_products), (60, Settled Get_products True), (60, Timer_set 2000)]
   \<and> timers (testRedisCache scripted (ready [])) = [(60, 2000)]
   \<and> trace (advances scripted [1000] (testRedisCache scripted (ready []))) =
       trace (testRedisCache scripted (ready []))
   \<and> trace (advances scripted [1000, 1000] (testRedisCache scripted (ready []))) =
       trace (testRedisCache scripted (ready []))
       @ [(2060, Timer_fired 60 2000), (2060, Sent Get_products),
          (2090, Settled Get_products True)]
   \<and> callback_runs [(60, 2000)]
        [(2060, Timer_fired 60 2000), (2060, Sent Get_products),
         (2090, Settled Get_products True)]"
proof -
  have accepted: "fst (clear_cache scripted (server (ready []))) = Inr ()"
    by (simp add: fixture_defs)
  have first_phase: "trace (testRedisCache scripted (ready [])) =
       [(0, Sent Get_cache_clear), (30, Settled Get_cache_clear True),
        (30, Sent Get_products), (60, Settled Get_products True), (60, Timer_set 2000)]"
    "timers (testRedisCache scripted (ready [])) = [(60, 2000)]"
    by (simp_all add: probe_run_example)
  from probe_ordering [of scripted "ready []" "[1000, 1000]"] accepted
  show ?thesis
    by (simp add: first_phase probe_run_example_early probe_run_example_due
        del: advances.simps)
qed

subsection \<open>Failures and the view\<close>

text \<open>
  Nothing in the component ever sets \<open>error\<close> back: once it holds the text of a failed
  catalogue fetch it stays truthy under every handler and every timer callback, and the
  component renders that text alone.
\<close>

lemma render_main:
  "render s = Main_view c \<Longrightarrow>
   \<not> loading s \<and> \<not> truthy (error s) \<and>
   c = \<lparr>listed = products s,
        form_heading =
          (if truthy (selectedProductId s) then ''Update Product'' else ''Add New Product''),
        name_field = productName s,
        price_field = productPrice s,
        status_line = responseMessage s,
        queue_lines = queueMessages s,
        cache_lines = cacheTestResults s\<rparr>"
  by (auto simp: render_def split: if_splits)

lemma error_not_interactive: "truthy (error s) \<Longrightarrow> \<not> interactive s"
  by (simp add: interactive_def render_def)

lemma testRedisCache_timeout_error_stays:
  "truthy (error (ui w)) \<Longrightarrow> truthy (error (ui (testRedisCache_timeout b w)))"
  by (simp add: testRedisCache_timeout_def Let_def case_prod_beta fetchProducts_error_stays)

lemma fire_due_error_stays:
  "truthy (error (ui w)) \<Longrightarrow> truthy (error (ui (fire_due b ts w)))"
proof (induction ts arbitrary: w)
  case Nil
  then show ?case by simp
next
  case (Cons p ts)
  obtain s d where p: "p = (s, d)" by (cases p)
  show ?case
  proof (cases "s + d \<le> clock w")
    case True
    have "truthy (error (ui (testRedisCache_timeout b
            (w\<lparr>trace := trace w @ [(clock w, Timer_fired s d)]\<rparr>))))"
      using Cons.prems by (simp add: testRedisCache_timeout_error_stays)
    from Cons.IH [OF this] True show ?thesis by (simp add: p)
  next
    case False
    have "truthy (error (ui (w\<lparr>timers := timers w @ [(s, d)]\<rparr>)))"
      using Cons.prems by simp
    from Cons.IH [OF this] False show ?thesis by (simp add: p)
  qed
qed

lemma handleAddOrUpdateProduct_error_stays:
  "truthy (error (ui w)) \<Longrightarrow> truthy (error (ui (handleAddOrUpdateProduct b w)))"
proof -
  assume t: "truthy (error (ui w))"
  obtain r w1 where r: "submit_request b w = (r, w1)" by (cases "submit_request b w")
  have u: "ui w1 = ui w" using submit_request_ui [of b w] r by simp
  show ?thesis
  proof (cases r)
    case (Inl e)
    with r u t show ?thesis
      by (simp add: handleAddOrUpdateProduct_def split: option.splits err_body.splits)
  next
    case (Inr d)
    with r u t show ?thesis
      by (simp add: handleAddOrUpdateProduct_def fetchProducts_error_stays)
  qed
qed

lemma handleDeleteProduct_error_stays:
  "truthy (error (ui w)) \<Longrightarrow> truthy (error (ui (handleDeleteProduct b i w)))"
proof -
  assume t: "truthy (error (ui w))"
  obtain r w1 where r: "await_request b (Delete_products i) (delete_product b i) w = (r, w1)"
    by (cases "await_request b (Delete_products i) (delete_product b i) w")
  have u: "ui w1 = ui w"
    using await_request_ui [of b "Delete_products i" "delete_product b i" w] r by simp
  show ?thesis
  proof (cases r)
    case (Inl e)
    with r u t show ?thesis
      by (simp add: handleDeleteProduct_def split: option.splits err_body.splits)
  next
    case (Inr d)
    with r u t show ?thesis
      by (simp add: handleDeleteProduct_def fetchProducts_error_stays)
  qed
qed

lemma testRedisCache_error_stays:
  "truthy (error (ui w)) \<Longrightarrow> truthy (error (ui (testRedisCache b w)))"
proof (cases "fst (clear_cache b (server w))")
  case (Inl e)
  assume "truthy (error (ui w))"
  then show ?thesis by (subst testRedisCache_rejected [OF Inl]) simp
next
  case (Inr u)
  assume "truthy (error (ui w))"
  with Inr show ?thesis
    by (simp add: testRedisCache_def Let_def case_prod_beta fetchProducts_error_stays)
qed

lemma step_error_stays:
  "truthy (error (ui w)) \<Longrightarrow> truthy (error (ui (step b a w)))"
proof (cases a)
  case Mount
  assume "truthy (error (ui w))"
  then show ?thesis by (simp add: Mount mount_def fetchProducts_error_stays)
next
  case Submit
  assume "truthy (error (ui w))"
  then show ?thesis by (simp add: Submit handleAddOrUpdateProduct_error_stays)
next
  case (Delete i)
  assume "truthy (error (ui w))"
  then show ?thesis by (simp add: Delete handleDeleteProduct_error_stays)
next
  case Fetch_queue
  assume "truthy (error (ui w))"
  then show ?thesis
    by (simp add: Fetch_queue fetchQueueMessages_def case_prod_beta split: sum.splits)
next
  case Test_cache
  assume "truthy (error (ui w))"
  then show ?thesis by (simp add: Test_cache testRedisCache_error_stays)
next
  case Clear_cache
  assume "truthy (error (ui w))"
  then show ?thesis
    by (simp add: Clear_cache clearRedisCache_def case_prod_beta split: sum.splits)
next
  case (Elapse dt)
  assume "truthy (error (ui w))"
  then show ?thesis by (simp add: Elapse advance_def fire_due_error_stays)
qed (simp_all add: handleSelectProduct_def clearQueueMessages_def)

lemma run_error_stays:
  "truthy (error (ui w)) \<Longrightarrow> truthy (error (ui (run b as w)))"
  by (induction as arbitrary: w) (simp_all add: step_error_stays)

text \<open>
  C2 as stated does not hold: on the shop a delete goes through and the refresh that
  follows it fails, and a catalogue fetch fails on its own. Both times the component was
  showing its controls before, and afterwards it renders the error text and no control.
\<close>

theorem failed_fetch_replaces_the_view:
  "interactive (ui (ready [Accept, Reject network_error]))
   \<and> fst (delete_product scripted (Num ''1'') (server (ready [Accept, Reject network_error])))
       = Inr ()
   \<and> render (ui (handleDeleteProduct scripted (Num ''1'') (ready [Accept, Reject network_error])))
       = Error_view (Str ''Error fetching products: Network Error. Please try again later.'')
   \<and> \<not> interactive
         (ui (handleDeleteProduct scripted (Num ''1'') (ready [Accept, Reject network_error])))
   \<and> interactive (ui (ready [Reject network_error]))
   \<and> render (ui (snd (fetchProducts scripted (ready [Reject network_error]))))
       = Error_view (Str ''Error fetching products: Network Error. Please try again later.'')
   \<and> \<not> interactive (ui (snd (fetchProducts scripted (ready [Reject network_error]))))"
  by (simp add: interactive_def render_def handleDeleteProduct_def fetchProducts_def
      await_request_def fixture_defs)

text \<open>
  What a failed catalogue fetch leaves behind, and what the component renders from it, for
  the fetch alone and for each handler that fetches.
\<close>

lemma fetchProducts_loading [simp]: "loading (ui (snd (fetchProducts b w))) = False"
  by (simp add: fetchProducts_def case_prod_beta split: sum.splits)

lemma fetchProducts_failed_error:
  "fst (list_products b (server w)) = Inl e \<Longrightarrow>
   error (ui (snd (fetchProducts b w))) =
     Str (''Error fetching products: '' @ err_message e @ ''. Please try again later.'')"
  using fetchProducts_failed [of b w e] by simp

lemma error_view:
  assumes "error (ui w) =
     Str (''Error fetching products: '' @ m @ ''. Please try again later.'')"
    and "loading (ui w) = False"
  shows "render (ui w) =
           Error_view (Str (''Error fetching products: '' @ m @ ''. Please try again later.''))
       \<and> \<not> interactive (ui (run b as w))"
proof -
  have "truthy (error (ui w))" using assms(1) by simp
  then have "\<not> interactive (ui (run b as w))"
    by (intro error_not_interactive run_error_stays)
  moreover have "render (ui w) =
           Error_view (Str (''Error fetching products: '' @ m @ ''. Please try again later.''))"
    using assms by (simp add: render_def)
  ultimately show ?thesis by blast
qed

lemma handleAddOrUpdateProduct_refresh_failed:
  assumes "fst (submit_request b w) = Inr d"
    and "fst (list_products b (server (snd (submit_request b w)))) = Inl e"
  shows "error (ui (handleAddOrUpdateProduct b w)) =
           Str (''Error fetching products: '' @ err_message e @ ''. Please try again later.'')"
    and "loading (ui (handleAddOrUpdateProduct b w)) = False"
  using assms
  by (cases "submit_request b w"; simp add: handleAddOrUpdateProduct_def
        fetchProducts_failed_error)+

lemma handleDeleteProduct_refresh_failed:
  assumes "fst (delete_product b i (server w)) = Inr u"
    and "fst (list_products b (snd (delete_product b i (server w)))) = Inl e"
  shows "error (ui (handleDeleteProduct b i w)) =
           Str (''Error fetching products: '' @ err_message e @ ''. Please try again later.'')"
    and "loading (ui (handleDeleteProduct b i w)) = False"
  using assms
  by (simp_all add: handleDeleteProduct_def case_prod_beta fetchProducts_failed_error)

lemma testRedisCache_fetch_failed:
  assumes "fst (clear_cache b (server w)) = Inr u"
    and "fst (list_products b (snd (clear_cache b (server w)))) = Inl e"
  shows "error (ui (testRedisCache b w)) =
           Str (''Error fetching products: '' @ err_message e @ ''. Please try again later.'')"
    and "loading (ui (testRedisCache b w)) = False"
  using assms
  by (simp_all add: testRedisCache_def Let_def case_prod_beta fetchProducts_failed_error)

lemma testRedisCache_timeout_fetch_failed:
  assumes "fst (list_products b (server w)) = Inl e"
  shows "error (ui (testRedisCache_timeout b w)) =
           Str (''Error fetching products: '' @ err_message e @ ''. Please try again later.'')"
    and "loading (ui (testRedisCache_timeout b w)) = False"
  using assms
  by (simp_all add: testRedisCache_timeout_def Let_def case_prod_beta
        fetchProducts_failed_error)

text \<open>
  C2, amended. From a component that shows its controls, a rejected create or update, a
  rejected delete, a rejected queue fetch and a rejected cache clear (from the button or as
  the first step of the probe) leave the controls rendered, with only the status written by
  the handler changed. A rejected catalogue fetch, from any state of the component (the
  mount included) and wherever it is issued (alone, as the refresh after a write, as the
  first fetch of the probe or in its callback), replaces what is rendered by the error
  text, and no sequence of later actions brings the controls back.
\<close>

theorem failures_and_the_view:
  "(render (ui w) = Main_view c \<longrightarrow>
      (fst (submit_request b w) = Inl e \<longrightarrow>
         render (ui (handleAddOrUpdateProduct b w)) =
           Main_view (c\<lparr>status_line :=
                         (case err_response e of
                            None \<Rightarrow> Str ''Failed to perform operation''
                          | Some No_data \<Rightarrow> status_line c
                          | Some (Data m) \<Rightarrow> m)\<rparr>))
      \<and> (fst (delete_product b i (server w)) = Inl e \<longrightarrow>
         render (ui (handleDeleteProduct b i w)) =
           Main_view (c\<lparr>status_line :=
                         (case err_response e of
                            None \<Rightarrow> Str ''Failed to delete product''
                          | Some No_data \<Rightarrow> status_line c
                          | Some (Data m) \<Rightarrow> m)\<rparr>))
      \<and> (fst (fetch_queue b (server w)) = Inl e \<longrightarrow>
         render (ui (fetchQueueMessages b w)) = Main_view (c\<lparr>queue_lines := []\<rparr>))
      \<and> (fst (clear_cache b (server w)) = Inl e \<longrightarrow>
         render (ui (clearRedisCache b w)) =
           Main_view (c\<lparr>cache_lines :=
                         (cache_lines c)\<lparr>overallMessage := ''Failed to clear Redis cache''\<rparr>\<rparr>)
         \<and> render (ui (testRedisCache b w)) =
           Main_view (c\<lparr>cache_lines :=
                         \<lparr>firstFetchStatus = [], secondFetchStatus = [],
                          overallMessage = ''Error testing Redis cache''\<rparr>\<rparr>)))
   \<and> (fst (list_products b (server w)) = Inl e \<longrightarrow>
        render (ui (snd (fetchProducts b w))) =
          Error_view (Str (''Error fetching products: '' @ err_message e
                           @ ''. Please try again later.''))
        \<and> \<not> interactive (ui (run b as (snd (fetchProducts b w))))
        \<and> render (ui (testRedisCache_timeout b w)) =
          Error_view (Str (''Error fetching products: '' @ err_message e
                           @ ''. Please try again later.''))
        \<and> \<not> interactive (ui (run b as (testRedisCache_timeout b w))))
   \<and> (fst (submit_request b w) = Inr d
        \<and> fst (list_products b (server (snd (submit_request b w)))) = Inl e \<longrightarrow>
        render (ui (handleAddOrUpdateProduct b w)) =
          Error_view (Str (''Error fetching products: '' @ err_message e
                           @ ''. Please try again later.''))
        \<and> \<not> interactive (ui (run b as (handleAddOrUpdateProduct b w))))
   \<and> (fst (delete_product b i (server w)) = Inr u
        \<and> fst (list_products b (snd (delete_product b i (server w)))) = Inl e \<longrightarrow>
        render (ui (handleDeleteProduct b i w)) =
          Error_view (Str (''Error fetching products: '' @ err_message e
                           @ ''. Please try again later.''))
        \<and> \<not> interactive (ui (run b as (handleDeleteProduct b i w))))
   \<and> (fst (clear_cache b (server w)) = Inr u
        \<and> fst (list_products b (snd (clear_cache b (server w)))) = Inl e \<longrightarrow>
        render (ui (testRedisCache b w)) =
          Error_view (Str (''Error fetching products: '' @ err_message e
                           @ ''. Please try again later.''))
        \<and> \<not> interactive (ui (run b as (testRedisCache b w))))"
proof -
  have submit: "render (ui (handleAddOrUpdateProduct b w)) =
           Main_view (c\<lparr>status_line :=
                         (case err_response e of
                            None \<Rightarrow> Str ''Failed to perform operation''
                          | Some No_data \<Rightarrow> status_line c
                          | Some (Data m) \<Rightarrow> m)\<rparr>)"
    if v: "render (ui w) = Main_view c" and r: "fst (submit_request b w) = Inl e"
    using render_main [OF v]
    by (subst handleAddOrUpdateProduct_rejected [OF r])
       (simp add: render_def split: option.splits err_body.splits)
  have delete: "render (ui (handleDeleteProduct b i w)) =
           Main_view (c\<lparr>status_line :=
                         (case err_response e of
                            None \<Rightarrow> Str ''Failed to delete product''
                          | Some No_data \<Rightarrow> status_line c
                          | Some (Data m) \<Rightarrow> m)\<rparr>)"
    if v: "render (ui w) = Main_view c" and r: "fst (delete_product b i (server w)) = Inl e"
    using render_main [OF v]
    by (subst handleDeleteProduct_rejected [OF r])
       (simp add: render_def split: option.splits err_body.splits)
  have queue: "render (ui (fetchQueueMessages b w)) = Main_view (c\<lparr>queue_lines := []\<rparr>)"
    if v: "render (ui w) = Main_view c" and r: "fst (fetch_queue b (server w)) = Inl e"
    using r render_main [OF v]
    by (cases "fetch_queue b (server w)")
       (simp add: fetchQueueMessages_def await_request_def render_def)
  have clear: "render (ui (clearRedisCache b w)) =
           Main_view (c\<lparr>cache_lines :=
                         (cache_lines c)\<lparr>overallMessage := ''Failed to clear Redis cache''\<rparr>\<rparr>)
         \<and> render (ui (testRedisCache b w)) =
           Main_view (c\<lparr>cache_lines :=
                         \<lparr>firstFetchStatus = [], secondFetchStatus = [],
                          overallMessage = ''Error testing Redis cache''\<rparr>\<rparr>)"
    if v: "render (ui w) = Main_view c" and r: "fst (clear_cache b (server w)) = Inl e"
  proof -
    have "render (ui (clearRedisCache b w)) =
           Main_view (c\<lparr>cache_lines :=
                         (cache_lines c)\<lparr>overallMessage := ''Failed to clear Redis cache''\<rparr>\<rparr>)"
      using r render_main [OF v]
      by (cases "clear_cache b (server w)")
         (simp add: clearRedisCache_def await_request_def render_def)
    moreover have "render (ui (testRedisCache b w)) =
           Main_view (c\<lparr>cache_lines :=
                         \<lparr>firstFetchStatus = [], secondFetchStatus = [],
                          overallMessage = ''Error testing Redis cache''\<rparr>\<rparr>)"
      using render_main [OF v]
      by (subst testRedisCache_rejected [OF r]) (simp add: render_def)
    ultimately show ?thesis by blast
  qed
  have fetch: "render (ui (snd (fetchProducts b w))) =
          Error_view (Str (''Error fetching products: '' @ err_message e
                           @ ''. Please try again later.''))
        \<and> \<not> interactive (ui (run b as (snd (fetchProducts b w))))
        \<and> render (ui (testRedisCache_timeout b w)) =
          Error_view (Str (''Error fetching products: '' @ err_message e
                           @ ''. Please try again later.''))
        \<and> \<not> interactive (ui (run b as (testRedisCache_timeout b w)))"
    if r: "fst (list_products b (server w)) = Inl e"
    using error_view [OF fetchProducts_failed_error [OF r] fetchProducts_loading, of b as]
      error_view [OF testRedisCache_timeout_fetch_failed [OF r], of b as]
    by blast
  have refresh: "render (ui (handleAddOrUpdateProduct b w)) =
          Error_view (Str (''Error fetching products: '' @ err_message e
                           @ ''. Please try again later.''))
        \<and> \<not> interactive (ui (run b as (handleAddOrUpdateProduct b w)))"
    if r: "fst (submit_request b w) = Inr d"
      and f: "fst (list_products b (server (snd (submit_request b w)))) = Inl e"
    by (rule error_view [OF handleAddOrUpdateProduct_refresh_failed [OF r f]])
  have refresh': "render (ui (handleDeleteProduct b i w)) =
          Error_view (Str (''Error fetching products: '' @ err_message e
                           @ ''. Please try again later.''))
        \<and> \<not> interactive (ui (run b as (handleDeleteProduct b i w)))"
    if r: "fst (delete_product b i (server w)) = Inr u"
      and f: "fst (list_products b (snd (delete_product b i (server w)))) = Inl e"
    by (rule error_view [OF handleDeleteProduct_refresh_failed [OF r f]])
  have probe: "render (ui (testRedisCache b w)) =
          Error_view (Str (''Error fetching products: '' @ err_message e
                           @ ''. Please try again later.''))
        \<and> \<not> interactive (ui (run b as (testRedisCache b w)))"
    if r: "fst (clear_cache b (server w)) = Inr u"
      and f: "fst (list_products b (snd (clear_cache b (server w)))) = Inl e"
    by (rule error_view [OF testRedisCache_fetch_failed [OF r f]])
  from submit delete queue clear fetch refresh refresh' probe show ?thesis by blast
qed

lemma render_ready: "render (ui (ready rs)) = Main_view ready_view"
  by (simp add: render_def ready_view_def fixture_defs)

lemma render_starting: "render (ui (starting rs)) = Loading_view"
  by (simp add: render_def fixture_defs)

lemma first_request_rejected:
  "fst (submit_request scripted (ready [Reject network_error])) = Inl network_error"
  "fst (fetch_queue scripted (server (ready [Reject network_error]))) = Inl network_error"
  "fst (list_products scripted (server (starting [Reject network_error]))) = Inl network_error"
  by (simp_all add: submit_request_def fixture_defs)

text \<open>
  The first request after the mount never reaches the shop, whichever button it comes from;
  the fetch of the mount itself never reaches it; the first fetch of a probe run fails.
\<close>

theorem failures_and_the_view_witness:
  "render (ui (ready [Reject network_error])) = Main_view ready_view
   \<and> render (ui (handleAddOrUpdateProduct scripted (ready [Reject network_error]))) =
       Main_view (ready_view\<lparr>status_line := Str ''Failed to perform operation''\<rparr>)
   \<and> render (ui (handleDeleteProduct scripted (Num ''1'') (ready [Reject network_error]))) =
       Main_view (ready_view\<lparr>status_line := Str ''Failed to delete product''\<rparr>)
   \<and> render (ui (fetchQueueMessages scripted (ready [Reject network_error]))) =
       Main_view (ready_view\<lparr>queue_lines := []\<rparr>)
   \<and> render (ui (clearRedisCache scripted (ready [Reject network_error]))) =
       Main_view (ready_view\<lparr>cache_lines :=
         (cache_lines ready_view)\<lparr>overallMessage := ''Failed to clear Redis cache''\<rparr>\<rparr>)
   \<and> render (ui (starting [Reject network_error])) = Loading_view
   \<and> render (ui (mount scripted (starting [Reject network_error]))) =
       Error_view (Str ''Error fetching products: Network Error. Please try again later.'')
   \<and> \<not> interactive
         (ui (run scripted [Clear_queue, Test_cache, Elapse 5000, Submit]
                (mount scripted (starting [Reject network_error]))))
   \<and> render (ui (testRedisCache scripted (ready [Accept, Reject network_error]))) =
       Error_view (Str ''Error fetching products: Network Error. Please try again later.'')"
proof -
  have shown: "err_response network_error = None" "err_message network_error = ''Network Error''"
    by (simp_all add: network_error_def)
  from failures_and_the_view
      [where b = scripted and w = "ready [Reject network_error]" and c = ready_view
         and e = network_error and i = "Num ''1''"]
    failures_and_the_view
      [where b = scripted and w = "starting [Reject network_error]" and e = network_error
         and as = "[Clear_queue, Test_cache, Elapse 5000, Submit]"]
    failures_and_the_view
      [where b = scripted and w = "ready [Accept, Reject network_error]" and e = network_error
         and u = "()"]
    first_request_rejected delete_rejected_example clear_rejected_example
    first_fetch_rejected_example render_ready [of "[Reject network_error]"]
    render_starting [of "[Reject network_error]"]
  show ?thesis
    by (simp add: shown mount_def del: run.simps)
qed

end
